theory Spec2Isabelle
  imports Main "HOL-Library.Char_ord" "HOL-Library.List_Lexorder"
begin

section \<open>Python values of app.py\<close>

text \<open>
  The exceptions that occur in \<^verbatim>\<open>app.py\<close>. \<open>CalledProcessError\<close> carries the attributes
  \<open>returncode\<close>, \<open>cmd\<close>, \<open>output\<close> and \<open>stderr\<close> of Python's class; every other exception
  carries its message, which is what \<open>str(e)\<close> returns for it (a \<open>KeyError\<close> carries
  the key).
\<close>

datatype exn =
    CalledProcessError int "string list" "string option" "string option"
  | FileNotFoundError string
  | FileExistsError string
  | NotADirectoryError string
  | IndexError string
  | OSError string
  | TypeError string
  | KeyError string
  | AttributeError string
  | BadRequest string
  | Exception string

fun str_nat :: "nat \<Rightarrow> string" where
  "str_nat n = (if n < 10 then [''0123456789'' ! n]
                else str_nat (n div 10) @ [''0123456789'' ! (n mod 10)])"

declare str_nat.simps [simp del]

definition str_int :: "int \<Rightarrow> string" where
  "str_int i = (if i < 0 then CHR ''-'' # str_nat (nat (- i)) else str_nat (nat i))"

definition repr_str :: "string \<Rightarrow> string" where
  "repr_str s = [CHR 0x27] @ s @ [CHR 0x27]"

fun join_comma :: "string list \<Rightarrow> string" where
  "join_comma [] = []"
| "join_comma [s] = s"
| "join_comma (s # t # ss) = s @ '', '' @ join_comma (t # ss)"

definition repr_list :: "string list \<Rightarrow> string" where
  "repr_list xs = ''['' @ join_comma (map repr_str xs) @ '']''"

text \<open>
  \<open>str(e)\<close>. The endpoint never takes \<open>str\<close> of a \<open>CalledProcessError\<close> (the first
  \<^verbatim>\<open>except\<close> clause takes each of them and formats \<open>returncode\<close> only); the
  equation for it is Python's message for an exit status that is not a signal.
\<close>

fun str_exn :: "exn \<Rightarrow> string" where
  "str_exn (CalledProcessError returncode cmd out err) =
     ''Command '' @ repr_str (repr_list cmd) @ '' returned non-zero exit status ''
       @ str_int returncode @ ''.''"
| "str_exn (FileNotFoundError m) = m"
| "str_exn (FileExistsError m) = m"
| "str_exn (NotADirectoryError m) = m"
| "str_exn (IndexError m) = m"
| "str_exn (OSError m) = m"
| "str_exn (TypeError m) = m"
| "str_exn (KeyError m) = repr_str m"
| "str_exn (AttributeError m) = m"
| "str_exn (BadRequest m) = m"
| "str_exn (Exception m) = m"

text \<open>An f-string field holding \<open>None\<close> or a string.\<close>

definition str_opt :: "string option \<Rightarrow> string" where
  "str_opt v = (case v of None \<Rightarrow> ''None'' | Some s \<Rightarrow> s)"

text \<open>
  The values \<open>request.get_json()\<close> returns and \<open>jsonify\<close> takes: \<open>None\<close>, booleans,
  integers, strings, lists and dicts (a dict as the list of its items, the first item
  of a key being its value). Numbers with a fraction are left out: on every line of the
  endpoint they behave as the integers do, up to their text.
\<close>

datatype json =
    JNull
  | JBool bool
  | JNum int
  | JStr string
  | JArr "json list"
  | JObj "(string \<times> json) list"

text \<open>\<open>bool(v)\<close>, as \<open>not v\<close> tests it.\<close>

fun py_truthy :: "json \<Rightarrow> bool" where
  "py_truthy JNull = False"
| "py_truthy (JBool b) = b"
| "py_truthy (JNum n) = (n \<noteq> 0)"
| "py_truthy (JStr s) = (s \<noteq> [])"
| "py_truthy (JArr xs) = (xs \<noteq> [])"
| "py_truthy (JObj items) = (items \<noteq> [])"

text \<open>\<open>type(v).__name__\<close>.\<close>

fun type_name :: "json \<Rightarrow> string" where
  "type_name JNull = ''NoneType''"
| "type_name (JBool b) = ''bool''"
| "type_name (JNum n) = ''int''"
| "type_name (JStr s) = ''str''"
| "type_name (JArr xs) = ''list''"
| "type_name (JObj items) = ''dict''"

text \<open>
  \<open>repr(v)\<close> and \<open>str(v)\<close>, which an f-string field takes. A string inside a list or a
  dict is written between single quotes without escapes.
\<close>

fun py_repr :: "json \<Rightarrow> string" where
  "py_repr JNull = ''None''"
| "py_repr (JBool b) = (if b then ''True'' else ''False'')"
| "py_repr (JNum n) = str_int n"
| "py_repr (JStr s) = repr_str s"
| "py_repr (JArr xs) = ''['' @ join_comma (map py_repr xs) @ '']''"
| "py_repr (JObj items) =
     ''{'' @ join_comma (map (\<lambda>item. repr_str (fst item) @ '': '' @ py_repr (snd item)) items)
       @ ''}''"

definition py_str :: "json \<Rightarrow> string" where
  "py_str v = (case v of JStr s \<Rightarrow> s | _ \<Rightarrow> py_repr v)"

text \<open>Whether a string occurs in another as a contiguous part.\<close>

fun is_substring :: "string \<Rightarrow> string \<Rightarrow> bool" where
  "is_substring key [] = (key = [])"
| "is_substring key (c # cs) = (take (length key) (c # cs) = key \<or> is_substring key cs)"

text \<open>
  \<open>key in v\<close> for a string \<open>key\<close>: a key of a dict, an element of a list, a part of a
  string; anything else is not iterable.
\<close>

fun py_contains :: "string \<Rightarrow> json \<Rightarrow> exn + bool" where
  "py_contains key (JObj items) = Inr (map_of items key \<noteq> None)"
| "py_contains key (JArr xs) = Inr (JStr key \<in> set xs)"
| "py_contains key (JStr s) = Inr (is_substring key s)"
| "py_contains key v =
     Inl (TypeError (''argument of type '' @ repr_str (type_name v) @ '' is not iterable''))"

text \<open>\<open>v[key]\<close> for a string \<open>key\<close>: only a dict can be indexed by a string.\<close>

fun py_getitem :: "json \<Rightarrow> string \<Rightarrow> exn + json" where
  "py_getitem (JObj items) key =
     (case map_of items key of None \<Rightarrow> Inl (KeyError key) | Some v \<Rightarrow> Inr v)"
| "py_getitem (JArr xs) key =
     Inl (TypeError ''list indices must be integers or slices, not str'')"
| "py_getitem (JStr s) key =
     Inl (TypeError (''string indices must be integers, not '' @ repr_str ''str''))"
| "py_getitem v key =
     Inl (TypeError (repr_str (type_name v) @ '' object is not subscriptable''))"

text \<open>\<open>v.get(key, dflt)\<close>: a method of dicts only.\<close>

fun py_get :: "json \<Rightarrow> string \<Rightarrow> json \<Rightarrow> exn + json" where
  "py_get (JObj items) key dflt =
     Inr (case map_of items key of None \<Rightarrow> dflt | Some v \<Rightarrow> v)"
| "py_get v key dflt =
     Inl (AttributeError (repr_str (type_name v) @ '' object has no attribute ''
            @ repr_str ''get''))"

text \<open>What \<open>jsonify(body), code\<close> returns: the fields of the body and the HTTP status.\<close>

type_synonym response = "(string \<times> json) list \<times> nat"

section \<open>The file system\<close>

text \<open>
  A path is the list of its components: \<open>/tmp/nerfstudio_jobs\<close> is
  \<open>[''tmp'', ''nerfstudio_jobs'']\<close>, and \<open>os.path.join p name\<close> appends one component
  (every name the endpoint joins is free of \<open>/\<close>: a UUID, a base name, a literal).
  The file system is the tree under the root: a file, or a directory with its entries;
  the first entry of a name is the one looked up.
\<close>

type_synonym path = "string list"

datatype node = File | Dir "(string \<times> node) list"

definition path_str :: "path \<Rightarrow> string" where
  "path_str p = concat (map (\<lambda>c. CHR ''/'' # c) p)"

definition os_path_join :: "path \<Rightarrow> string \<Rightarrow> path" where
  "os_path_join p name = p @ [name]"

definition os_path_basename :: "string \<Rightarrow> string" where
  "os_path_basename s = rev (takeWhile (\<lambda>c. c \<noteq> CHR ''/'') (rev s))"

fun lookup :: "node \<Rightarrow> path \<Rightarrow> node option" where
  "lookup n [] = Some n"
| "lookup File (c # cs) = None"
| "lookup (Dir es) (c # cs) =
     (case map_of es c of None \<Rightarrow> None | Some n \<Rightarrow> lookup n cs)"

definition os_path_exists :: "node \<Rightarrow> path \<Rightarrow> bool" where
  "os_path_exists root p = (lookup root p \<noteq> None)"

definition os_path_isdir :: "node \<Rightarrow> path \<Rightarrow> bool" where
  "os_path_isdir root p =
     (case lookup root p of Some (Dir es) \<Rightarrow> True | Some File \<Rightarrow> False | None \<Rightarrow> False)"

text \<open>\<open>os.listdir\<close>: the names in a directory, in the order the directory holds them.\<close>

definition os_listdir :: "node \<Rightarrow> path \<Rightarrow> exn + string list" where
  "os_listdir root p =
     (case lookup root p of
        None \<Rightarrow>
          Inl (FileNotFoundError (''[Errno 2] No such file or directory: '' @ repr_str (path_str p)))
      | Some File \<Rightarrow>
          Inl (NotADirectoryError (''[Errno 20] Not a directory: '' @ repr_str (path_str p)))
      | Some (Dir es) \<Rightarrow> Inr (remdups (map fst es)))"

text \<open>The tree without the subtree at a path (the root itself is never removed).\<close>

fun remove_tree :: "node \<Rightarrow> path \<Rightarrow> node" where
  "remove_tree n [] = n"
| "remove_tree File (c # cs) = File"
| "remove_tree (Dir es) [c] = Dir (filter (\<lambda>e. fst e \<noteq> c) es)"
| "remove_tree (Dir es) (c # cs) =
     Dir (map (\<lambda>e. if fst e = c then (fst e, remove_tree (snd e) cs) else e) es)"

text \<open>The tree with every missing directory of a path created.\<close>

fun make_tree :: "node \<Rightarrow> path \<Rightarrow> node" where
  "make_tree n [] = n"
| "make_tree File (c # cs) = File"
| "make_tree (Dir es) (c # cs) =
     (case map_of es c of
        None \<Rightarrow> Dir (es @ [(c, make_tree (Dir []) cs)])
      | Some n \<Rightarrow>
          Dir (map (\<lambda>e. if fst e = c then (fst e, make_tree (snd e) cs) else e) es))"

text \<open>Whether a proper prefix of the path is a file.\<close>

fun file_on_path :: "node \<Rightarrow> path \<Rightarrow> bool" where
  "file_on_path n [] = False"
| "file_on_path File (c # cs) = True"
| "file_on_path (Dir es) (c # cs) =
     (case map_of es c of None \<Rightarrow> False | Some n \<Rightarrow> file_on_path n cs)"

section \<open>The world outside the process\<close>

text \<open>
  What the endpoint does to the outside is recorded in order: blob transfers, external
  commands, writes to the document store, recursive removals, and the lines printed by
  the error handlers (the progress lines, which print elapsed times, are left out).
\<close>

datatype event =
    Download string path
  | Run "string list"
  | Upload path string
  | StatusWrite json "(string \<times> string) list"
  | Rmtree path
  | Print string

fun is_rmtree :: "event \<Rightarrow> bool" where
  "is_rmtree (Rmtree p) = True"
| "is_rmtree e = False"

fun is_run :: "event \<Rightarrow> bool" where
  "is_run (Run cmd) = True"
| "is_run e = False"

fun is_upload :: "event \<Rightarrow> bool" where
  "is_upload (Upload p s) = True"
| "is_upload e = False"

fun is_status_write :: "event \<Rightarrow> bool" where
  "is_status_write (StatusWrite doc_id update_data) = True"
| "is_status_write e = False"

record world =
  fs :: node
  docs :: "json \<rightharpoonup> (string \<rightharpoonup> string)"
  trace :: "event list"

text \<open>
  The two Firebase handles. Their methods are outside the program: a download gives an
  error message or not, and the file system after it; an upload (with \<open>make_public\<close>)
  gives an error message or the public URL; a document update gives an error message or
  succeeds. The document identifier is the value the request holds for it, a string or
  not: what the client library makes of it is part of the outcome of the update.
\<close>

record bucket_handle =
  bucket_name :: string
  blob_download_to_filename :: "string \<Rightarrow> path \<Rightarrow> node \<Rightarrow> string option \<times> node"
  blob_upload_from_filename :: "path \<Rightarrow> string \<Rightarrow> node \<Rightarrow> string + string"

record db_handle =
  doc_update :: "json \<Rightarrow> (string \<times> string) list \<Rightarrow> string option"

text \<open>The module globals \<open>db\<close> and \<open>bucket\<close>: \<open>None\<close> until the initialisation sets them.\<close>

record app_globals =
  db :: "db_handle option"
  bucket :: "bucket_handle option"

text \<open>
  The operating system: the UUID drawn for the request, whether a directory can be
  created, what an external command does (it cannot be started, or it exits with a
  status, having written to its standard error stream and changed the file system), and
  whether the n-th recursive removal of the request fails.
\<close>

record os_env =
  uuid4 :: string
  mkdir_error :: "path \<Rightarrow> string option"
  run_process :: "string list \<Rightarrow> node \<Rightarrow> string + (int \<times> string \<times> node)"
  rmtree_error :: "nat \<Rightarrow> string option"

text \<open>A computation changes the world and returns a value or raises.\<close>

type_synonym 'a io = "world \<Rightarrow> (exn + 'a) \<times> world"

definition return_io :: "'a \<Rightarrow> 'a io" where
  "return_io x w = (Inr x, w)"

definition raise_io :: "exn \<Rightarrow> 'a io" where
  "raise_io e w = (Inl e, w)"

definition bind_io :: "'a io \<Rightarrow> ('a \<Rightarrow> 'b io) \<Rightarrow> 'b io" where
  "bind_io m f w = (case m w of (Inl e, w') \<Rightarrow> (Inl e, w') | (Inr x, w') \<Rightarrow> f x w')"

definition record_event :: "event \<Rightarrow> world \<Rightarrow> world" where
  "record_event e w = w\<lparr>trace := trace w @ [e]\<rparr>"

section \<open>Library calls\<close>

text \<open>
  \<open>os.makedirs(path, exist_ok)\<close>: an existing directory is an error only without
  \<open>exist_ok\<close>; an existing file, or a file on the way, always is.
\<close>

definition os_makedirs :: "os_env \<Rightarrow> path \<Rightarrow> bool \<Rightarrow> node \<Rightarrow> exn + node" where
  "os_makedirs os p exist_ok root =
     (case lookup root p of
        Some (Dir es) \<Rightarrow>
          if exist_ok then Inr root
          else Inl (FileExistsError (''[Errno 17] File exists: '' @ repr_str (path_str p)))
      | Some File \<Rightarrow> Inl (FileExistsError (''[Errno 17] File exists: '' @ repr_str (path_str p)))
      | None \<Rightarrow>
          if file_on_path root p
          then Inl (NotADirectoryError (''[Errno 20] Not a directory: '' @ repr_str (path_str p)))
          else (case mkdir_error os p of
                  Some msg \<Rightarrow> Inl (OSError msg)
                | None \<Rightarrow> Inr (make_tree root p)))"

text \<open>
  \<open>subprocess.run(cmd, check=True)\<close>. The child's standard error stream is captured only
  when the caller asks for it (\<open>capture_output=True\<close> or \<open>stderr=PIPE\<close>); otherwise the
  \<open>stderr\<close> attribute of the exception is \<open>None\<close>. The \<open>output\<close> attribute is \<open>None\<close>
  likewise.
\<close>

definition subprocess_run :: "os_env \<Rightarrow> string list \<Rightarrow> bool \<Rightarrow> unit io" where
  "subprocess_run os cmd capture_stderr w =
     (let w1 = record_event (Run cmd) w in
      case run_process os cmd (fs w) of
        Inl msg \<Rightarrow> (Inl (FileNotFoundError msg), w1)
      | Inr (returncode, stderr_written, root') \<Rightarrow>
          if returncode \<noteq> 0
          then (Inl (CalledProcessError returncode cmd None
                       (if capture_stderr then Some stderr_written else None)),
                w1\<lparr>fs := root'\<rparr>)
          else (Inr (), w1\<lparr>fs := root'\<rparr>))"

text \<open>
  \<open>shutil.rmtree(path)\<close>: raises when the path is missing or when something cannot be
  removed; the directory is then still there.
\<close>

definition shutil_rmtree :: "os_env \<Rightarrow> path \<Rightarrow> unit io" where
  "shutil_rmtree os p w =
     (let n = length (filter is_rmtree (trace w));
          w1 = record_event (Rmtree p) w
      in if \<not> os_path_exists (fs w) p
         then (Inl (FileNotFoundError
                      (''[Errno 2] No such file or directory: '' @ repr_str (path_str p))), w1)
         else (case rmtree_error os n of
                 Some msg \<Rightarrow> (Inl (OSError msg), w1)
               | None \<Rightarrow> (Inr (), w1\<lparr>fs := remove_tree (fs w) p\<rparr>)))"

section \<open>Helper functions of app.py\<close>

definition download_video :: "app_globals \<Rightarrow> string \<Rightarrow> path \<Rightarrow> unit io" where
  "download_video g storage_path local_path w =
     (case bucket g of
        None \<Rightarrow> (Inl (Exception ''Firebase Storage bucket not initialized. Cannot download.''), w)
      | Some b \<Rightarrow>
          (let w1 = record_event (Download storage_path local_path) w in
           case blob_download_to_filename b storage_path local_path (fs w) of
             (Some msg, root') \<Rightarrow> (Inl (Exception msg), w1\<lparr>fs := root'\<rparr>)
           | (None, root') \<Rightarrow> (Inr (), w1\<lparr>fs := root'\<rparr>)))"

definition upload_splat :: "app_globals \<Rightarrow> path \<Rightarrow> string \<Rightarrow> string io" where
  "upload_splat g local_ply_path storage_path w =
     (case bucket g of
        None \<Rightarrow> (Inl (Exception ''Firebase Storage bucket not initialized. Cannot upload.''), w)
      | Some b \<Rightarrow>
          (let w1 = record_event (Upload local_ply_path storage_path) w in
           case blob_upload_from_filename b local_ply_path storage_path (fs w) of
             Inl msg \<Rightarrow> (Inl (Exception msg), w1)
           | Inr public_url \<Rightarrow> (Inr public_url, w1)))"

text \<open>Lines 84 to 86: the fields written; the URL only when it is given and not empty.\<close>

definition update_data :: "string \<Rightarrow> string option \<Rightarrow> (string \<times> string) list" where
  "update_data status splat_url =
     (''processingStatus'', status) #
     (case splat_url of
        None \<Rightarrow> []
      | Some u \<Rightarrow> if u \<noteq> [] then [(''splatModelUrl'', u)] else [])"

definition update_firestore :: "app_globals \<Rightarrow> json \<Rightarrow> string \<Rightarrow> string option \<Rightarrow> unit io" where
  "update_firestore g doc_id status splat_url w =
     (case db g of
        None \<Rightarrow> (Inl (Exception ''Firestore client not initialized. Cannot update status.''), w)
      | Some d \<Rightarrow>
          (let w1 = record_event (StatusWrite doc_id (update_data status splat_url)) w
           in case doc_update d doc_id (update_data status splat_url) of
                Some msg \<Rightarrow> (Inl (Exception msg), w1)
              | None \<Rightarrow>
                  (Inr (),
                   w1\<lparr>docs := (docs w1)(doc_id \<mapsto>
                          (case docs w1 doc_id of None \<Rightarrow> Map.empty | Some flds \<Rightarrow> flds)
                            ++ map_of (update_data status splat_url))\<rparr>)))"

section \<open>The endpoints\<close>

definition health_check :: "app_globals \<Rightarrow> response" where
  "health_check g =
     ([(''status'', JStr ''healthy''),
       (''firebase_initialized'', JBool (db g \<noteq> None \<and> bucket g \<noteq> None))], 200)"

definition process_cmd :: "path \<Rightarrow> path \<Rightarrow> string list" where
  "process_cmd local_video_path data_dir =
     [''ns-process-data'', ''video'',
      ''--data'', path_str local_video_path,
      ''--output-dir'', path_str data_dir,
      ''--verbose'']"

definition train_cmd :: "path \<Rightarrow> path \<Rightarrow> string list" where
  "train_cmd data_dir output_dir =
     [''ns-train'', ''splatfacto'',
      ''--data'', path_str data_dir,
      ''--output-dir'', path_str output_dir,
      ''--vis'', ''none'',
      ''--max-num-iterations'', ''5000'',
      ''--pipeline.model.sh-degree'', ''0'']"

definition export_cmd :: "path \<Rightarrow> path \<Rightarrow> string \<Rightarrow> string list" where
  "export_cmd config_path output_dir ply_output_filename =
     [''ns-export'', ''gaussian-splat'',
      ''--load-config'', path_str config_path,
      ''--output-dir'', path_str output_dir,
      ''--output-name'', ply_output_filename]"

definition job_tag :: "string \<Rightarrow> string" where
  "job_tag job_id = ''['' @ job_id @ ''] ''"

text \<open>Lines 166 and 167: the names in the directory that are directories, sorted.\<close>

definition training_dirs :: "node \<Rightarrow> path \<Rightarrow> exn + string list" where
  "training_dirs root splatfacto_output_dir =
     (case os_listdir root splatfacto_output_dir of
        Inl e \<Rightarrow> Inl e
      | Inr names \<Rightarrow>
          Inr (sort (filter (\<lambda>d. os_path_isdir root (os_path_join splatfacto_output_dir d)) names)))"

text \<open>Line 168: \<open>training_dirs[-1]\<close> raises \<open>IndexError\<close> on the empty list.\<close>

definition latest_training_dir :: "node \<Rightarrow> path \<Rightarrow> exn + path" where
  "latest_training_dir root splatfacto_output_dir =
     (case training_dirs root splatfacto_output_dir of
        Inl e \<Rightarrow> Inl e
      | Inr ds \<Rightarrow>
          if ds = [] then Inl (IndexError ''list index out of range'')
          else Inr (os_path_join splatfacto_output_dir (last ds)))"

text \<open>Lines 164 to 173: the inner \<^verbatim>\<open>try\<close> that looks for \<open>config.yml\<close>.\<close>

definition find_config :: "string \<Rightarrow> path \<Rightarrow> path io" where
  "find_config job_id output_dir w =
     (let splatfacto_output_dir = os_path_join output_dir ''splatfacto'' in
      case (case latest_training_dir (fs w) splatfacto_output_dir of
              Inl e \<Rightarrow> Inl e
            | Inr latest \<Rightarrow>
                (let config_path = os_path_join latest ''config.yml'' in
                 if \<not> os_path_exists (fs w) config_path
                 then Inl (FileNotFoundError ''config.yml missing'')
                 else Inr config_path)) of
        Inl find_err \<Rightarrow>
          (Inl (FileNotFoundError
                  (''Could not find config.yml in '' @ path_str splatfacto_output_dir)),
           record_event
             (Print (job_tag job_id @ ''Error finding config.yml automatically: ''
                       @ str_exn find_err)) w)
      | Inr config_path \<Rightarrow> (Inr config_path, w))"

text \<open>
  Lines 135 to 190: the three external commands, between the markers of the source, with
  the search for \<open>config.yml\<close> and the check that the exported file is there. The
  value is \<open>ply_output_path\<close>.
\<close>

definition nerfstudio_commands :: "os_env \<Rightarrow> string \<Rightarrow> path \<Rightarrow> path \<Rightarrow> path \<Rightarrow> path io" where
  "nerfstudio_commands os job_id local_video_path data_dir output_dir =
     bind_io (subprocess_run os (process_cmd local_video_path data_dir) False) (\<lambda>u1.
     bind_io (subprocess_run os (train_cmd data_dir output_dir) False) (\<lambda>u2.
     bind_io (find_config job_id output_dir) (\<lambda>config_path.
     bind_io (subprocess_run os (export_cmd config_path output_dir ''splat.ply'') False) (\<lambda>u3.
     (\<lambda>w. if \<not> os_path_exists (fs w) (os_path_join output_dir ''splat.ply'')
          then raise_io (FileNotFoundError
                 (''Output PLY file not found after export at: ''
                    @ path_str (os_path_join output_dir ''splat.ply''))) w
          else return_io (os_path_join output_dir ''splat.ply'') w)))))"

text \<open>
  Lines 129 to 209: the body of the \<^verbatim>\<open>try\<close> around the processing steps. It starts
  once line 124 has taken the base name of \<open>video_storage_path\<close>, which is a string
  then; the three local paths of lines 124 to 126 are the ones bound here.
\<close>

definition processing_steps ::
  "app_globals \<Rightarrow> os_env \<Rightarrow> string \<Rightarrow> string \<Rightarrow> json \<Rightarrow> json \<Rightarrow> path \<Rightarrow> response io" where
  "processing_steps g os job_id video_storage_path doc_id user_id job_dir =
     (let local_video_path = os_path_join job_dir (os_path_basename video_storage_path);
          data_dir = os_path_join job_dir ''nerf_data'';
          output_dir = os_path_join job_dir ''nerf_output'';
          splat_storage_path =
            ''splat-models/'' @ py_str user_id @ ''/'' @ py_str doc_id @ ''.ply''
      in
      bind_io (download_video g video_storage_path local_video_path) (\<lambda>u1.
      bind_io (nerfstudio_commands os job_id local_video_path data_dir output_dir) (\<lambda>ply_output_path.
      bind_io (upload_splat g ply_output_path splat_storage_path) (\<lambda>public_url.
      bind_io (update_firestore g doc_id ''complete'' (Some public_url)) (\<lambda>u2.
      bind_io (shutil_rmtree os job_dir) (\<lambda>u3.
      return_io ([(''status'', JStr ''processing complete''), (''splatUrl'', JStr public_url)],
                 200)))))))"

text \<open>
  Lines 216 to 221, and again 227 to 232: the write of \<open>failed\<close>, whose own failure is
  printed and dropped, and the removal of the job directory, which is not guarded.
\<close>

definition mark_failed_and_clean ::
  "app_globals \<Rightarrow> os_env \<Rightarrow> string \<Rightarrow> json \<Rightarrow> path \<Rightarrow> unit io" where
  "mark_failed_and_clean g os job_id doc_id job_dir w =
     (let w1 = (case update_firestore g doc_id ''failed'' None w of
                  (Inl db_err, w') \<Rightarrow>
                    record_event
                      (Print (job_tag job_id @ ''Also failed to update Firestore status to failed: ''
                                @ str_exn db_err)) w'
                | (Inr u, w') \<Rightarrow> w');
          w2 = record_event
                 (Print (job_tag job_id @ ''Cleaning up failed job directory: '' @ path_str job_dir))
                 w1
      in if os_path_exists (fs w2) job_dir then shutil_rmtree os job_dir w2 else (Inr (), w2))"

text \<open>
  Lines 212 to 233: the two \<^verbatim>\<open>except\<close> clauses, in the order of the source: the
  message each builds (lines 213 and 225), the response each returns (lines 222 and
  233), and the clauses themselves.
\<close>

fun error_message :: "exn \<Rightarrow> string" where
  "error_message (CalledProcessError returncode cmd out err) =
     ''Nerfstudio command failed (Code '' @ str_int returncode @ ''). Check RunPod logs.''"
| "error_message e = ''An error occurred during processing: '' @ str_exn e"

fun error_response :: "exn \<Rightarrow> response" where
  "error_response (CalledProcessError returncode cmd out err) =
     ([(''error'', JStr ''Nerfstudio processing failed''),
       (''details'', JStr (error_message (CalledProcessError returncode cmd out err)))], 500)"
| "error_response e =
     ([(''error'', JStr ''An internal server error occurred during processing''),
       (''details'', JStr (error_message e))], 500)"

fun log_processing_error :: "string \<Rightarrow> exn \<Rightarrow> world \<Rightarrow> world" where
  "log_processing_error job_id (CalledProcessError returncode cmd out err) w =
     record_event (Print (job_tag job_id @ ''Stderr: '' @ str_opt err))
       (record_event
          (Print (job_tag job_id @ error_message (CalledProcessError returncode cmd out err))) w)"
| "log_processing_error job_id e w =
     record_event (Print (job_tag job_id @ error_message e)) w"

definition handle_processing_error ::
  "app_globals \<Rightarrow> os_env \<Rightarrow> string \<Rightarrow> json \<Rightarrow> path \<Rightarrow> exn \<Rightarrow> response io" where
  "handle_processing_error g os job_id doc_id job_dir e w =
     (case mark_failed_and_clean g os job_id doc_id job_dir (log_processing_error job_id e w) of
        (Inl e', w') \<Rightarrow> (Inl e', w')
      | (Inr u, w') \<Rightarrow> (Inr (error_response e), w'))"

text \<open>The request body: \<open>get_json()\<close> raises, or returns the value of the body.\<close>

type_synonym request = "string + json"

definition base_work_dir :: path where
  "base_work_dir = [''tmp'', ''nerfstudio_jobs'']"

text \<open>
  Line 110: \<open>not data or 'videoStoragePath' not in data or 'firestoreDocId' not in data\<close>,
  evaluated from the left as far as needed.
\<close>

definition payload_incomplete :: "json \<Rightarrow> exn + bool" where
  "payload_incomplete data =
     (if \<not> py_truthy data then Inr True
      else (case py_contains ''videoStoragePath'' data of
              Inl e \<Rightarrow> Inl e
            | Inr c1 \<Rightarrow>
                if \<not> c1 then Inr True
                else (case py_contains ''firestoreDocId'' data of
                        Inl e \<Rightarrow> Inl e
                      | Inr c2 \<Rightarrow> Inr (\<not> c2))))"

text \<open>
  Line 124: \<open>os.path.basename\<close> raises \<open>TypeError\<close> for a value that is not a string.
\<close>

definition basename_of :: "json \<Rightarrow> exn + string" where
  "basename_of v =
     (case v of
        JStr s \<Rightarrow> Inr (os_path_basename s)
      | _ \<Rightarrow> Inl (TypeError (''expected str, bytes or os.PathLike object, not '' @ type_name v)))"

text \<open>
  Lines 109 to 233: the body of the outer \<^verbatim>\<open>try\<close>. Lines 113 to 126 stand before the
  inner \<^verbatim>\<open>try\<close>: what they raise leaves this body, also after the job directory has
  been made.
\<close>

definition handle_request :: "app_globals \<Rightarrow> os_env \<Rightarrow> request \<Rightarrow> response io" where
  "handle_request g os request w =
     (case request of
        Inl msg \<Rightarrow> (Inl (BadRequest msg), w)
      | Inr data \<Rightarrow>
          (case payload_incomplete data of
             Inl e \<Rightarrow> (Inl e, w)
           | Inr True \<Rightarrow>
               (Inr ([(''error'',
                       JStr ''Missing 'videoStoragePath' or 'firestoreDocId' in JSON payload'')],
                     400), w)
           | Inr False \<Rightarrow>
               (case py_getitem data ''videoStoragePath'' of
                  Inl e \<Rightarrow> (Inl e, w)
                | Inr video_storage_path \<Rightarrow>
               (case py_getitem data ''firestoreDocId'' of
                  Inl e \<Rightarrow> (Inl e, w)
                | Inr doc_id \<Rightarrow>
               (case py_get data ''userId'' (JStr ''unknown_user'') of
                  Inl e \<Rightarrow> (Inl e, w)
                | Inr user_id \<Rightarrow>
               (let job_id = uuid4 os;
                    job_dir = os_path_join base_work_dir job_id
                in case os_makedirs os job_dir True (fs w) of
                     Inl e \<Rightarrow> (Inl e, w)
                   | Inr root' \<Rightarrow>
                       (case basename_of video_storage_path of
                          Inl e \<Rightarrow> (Inl e, w\<lparr>fs := root'\<rparr>)
                        | Inr base \<Rightarrow>
                            (case processing_steps g os job_id (py_str video_storage_path)
                                    doc_id user_id job_dir (w\<lparr>fs := root'\<rparr>) of
                               (Inr resp, w') \<Rightarrow> (Inr resp, w')
                             | (Inl e, w') \<Rightarrow>
                                 handle_processing_error g os job_id doc_id job_dir e
                                   w'))))))))"

definition process_video_endpoint ::
  "app_globals \<Rightarrow> os_env \<Rightarrow> request \<Rightarrow> world \<Rightarrow> response \<times> world" where
  "process_video_endpoint g os request w =
     (if \<not> (db g \<noteq> None \<and> bucket g \<noteq> None)
      then (([(''error'', JStr ''Backend not fully initialized (Firebase connection missing).'')],
             503),
            record_event
              (Print ''Error: Firebase not initialized. Check environment variables and key.'') w)
      else (case handle_request g os request w of
              (Inr resp, w') \<Rightarrow> (resp, w')
            | (Inl e, w') \<Rightarrow>
                (let error_message = ''Error handling request: '' @ str_exn e
                 in (([(''error'', JStr ''Failed to handle request''),
                       (''details'', JStr error_message)], 500),
                     record_event (Print (''[PRE-JOB ERROR] '' @ error_message)) w'))))"

section \<open>A concrete job\<close>

text \<open>
  One request, with the job identifier \<open>j1\<close>, and the trees the three external commands
  leave behind; the exit status of the first command, the tree after the second and
  after the third, the outcome of the document updates and of the removals are the
  parameters of the scenario.
\<close>

definition demo_job_dir :: path where
  "demo_job_dir = [''tmp'', ''nerfstudio_jobs'', ''j1'']"

definition in_job_dir :: "(string \<times> node) list \<Rightarrow> node" where
  "in_job_dir es = Dir [(''tmp'', Dir [(''nerfstudio_jobs'', Dir [(''j1'', Dir es)])])]"

definition demo_video :: "(string \<times> node) list" where
  "demo_video = [(''clip.webm'', File)]"

definition demo_data :: "(string \<times> node) list" where
  "demo_data = demo_video @ [(''nerf_data'', Dir [(''transforms.json'', File)])]"

definition demo_runs :: "(string \<times> node) list" where
  "demo_runs = [(''2024-02-01_101500'', Dir [(''config.yml'', File)]),
                (''notes.txt'', File),
                (''2024-01-31_235900'', Dir [(''config.yml'', File)])]"

definition demo_trained :: "(string \<times> node) list \<Rightarrow> (string \<times> node) list" where
  "demo_trained runs = demo_data @ [(''nerf_output'', Dir [(''splatfacto'', Dir runs)])]"

definition demo_exported :: "(string \<times> node) list" where
  "demo_exported = demo_data @
     [(''nerf_output'', Dir [(''splatfacto'', Dir demo_runs), (''splat.ply'', File)])]"

definition demo_run_process ::
  "int \<Rightarrow> string \<Rightarrow> node \<Rightarrow> node \<Rightarrow> string list \<Rightarrow> node
     \<Rightarrow> string + (int \<times> string \<times> node)" where
  "demo_run_process rc1 err1 trained exported cmd root =
     (if hd cmd = ''ns-process-data'' then Inr (rc1, err1, in_job_dir demo_data)
      else if hd cmd = ''ns-train'' then Inr (0, [], trained)
      else Inr (0, [], exported))"

definition demo_os ::
  "(string list \<Rightarrow> node \<Rightarrow> string + (int \<times> string \<times> node)) \<Rightarrow> (nat \<Rightarrow> string option)
     \<Rightarrow> os_env" where
  "demo_os rp re =
     \<lparr>uuid4 = ''j1'', mkdir_error = (\<lambda>p. None), run_process = rp, rmtree_error = re\<rparr>"

definition demo_bucket :: bucket_handle where
  "demo_bucket = \<lparr>bucket_name = ''demo.appspot.com'',
     blob_download_to_filename = (\<lambda>storage_path local_path root. (None, in_job_dir demo_video)),
     blob_upload_from_filename =
       (\<lambda>local_path storage_path root. Inr (''https://storage.example/'' @ storage_path))\<rparr>"

definition demo_db :: "(json \<Rightarrow> (string \<times> string) list \<Rightarrow> string option) \<Rightarrow> db_handle" where
  "demo_db upd = \<lparr>doc_update = upd\<rparr>"

definition demo_globals ::
  "(json \<Rightarrow> (string \<times> string) list \<Rightarrow> string option) \<Rightarrow> app_globals" where
  "demo_globals upd = \<lparr>db = Some (demo_db upd), bucket = Some demo_bucket\<rparr>"

definition demo_payload :: "(string \<times> json) list" where
  "demo_payload = [(''videoStoragePath'', JStr ''videos/u1/clip.webm''),
                   (''firestoreDocId'', JStr ''doc1''), (''userId'', JStr ''u1'')]"

definition demo_request :: request where
  "demo_request = Inr (JObj demo_payload)"

text \<open>A request whose \<open>videoStoragePath\<close> is the number 123.\<close>

definition number_path_request :: request where
  "number_path_request =
     Inr (JObj [(''videoStoragePath'', JNum 123), (''firestoreDocId'', JStr ''doc1'')])"

definition demo_world :: world where
  "demo_world = \<lparr>fs = Dir [(''tmp'', Dir [])],
                  docs = [JStr ''doc1'' \<mapsto> [''processingStatus'' \<mapsto> ''pending'']],
                  trace = []\<rparr>"

text \<open>Outcomes of the document updates and of the recursive removals.\<close>

definition accepts_updates :: "json \<Rightarrow> (string \<times> string) list \<Rightarrow> string option" where
  "accepts_updates doc_id new_fields = None"

definition rejects_complete :: "json \<Rightarrow> (string \<times> string) list \<Rightarrow> string option" where
  "rejects_complete doc_id new_fields =
     (if map_of new_fields ''processingStatus'' = Some ''complete''
      then Some ''503 The service is currently unavailable.'' else None)"

definition removal_works :: "nat \<Rightarrow> string option" where
  "removal_works n = None"

definition removal_busy :: "nat \<Rightarrow> string option" where
  "removal_busy n = Some ''[Errno 16] Device or resource busy''"

definition first_removal_busy :: "nat \<Rightarrow> string option" where
  "first_removal_busy n = (if n = 0 then Some ''[Errno 16] Device or resource busy'' else None)"

text \<open>
  Every command exits with status zero; the first command exits with status 1 after
  writing to its standard error stream; the fitting leaves no run directory; the export
  leaves no file.
\<close>

definition all_ok_os :: "(nat \<Rightarrow> string option) \<Rightarrow> os_env" where
  "all_ok_os re =
     demo_os (demo_run_process 0 [] (in_job_dir (demo_trained demo_runs))
                (in_job_dir demo_exported)) re"

definition stage1_fails_os :: "(nat \<Rightarrow> string option) \<Rightarrow> os_env" where
  "stage1_fails_os re =
     demo_os (demo_run_process 1 ''boom'' (in_job_dir (demo_trained demo_runs))
                (in_job_dir demo_exported)) re"

definition no_runs_os :: "(nat \<Rightarrow> string option) \<Rightarrow> os_env" where
  "no_runs_os re =
     demo_os (demo_run_process 0 [] (in_job_dir (demo_trained [(''notes.txt'', File)]))
                (in_job_dir demo_exported)) re"

definition no_artifact_os :: "(nat \<Rightarrow> string option) \<Rightarrow> os_env" where
  "no_artifact_os re =
     demo_os (demo_run_process 0 [] (in_job_dir (demo_trained demo_runs))
                (in_job_dir (demo_trained demo_runs))) re"

definition uninitialised_globals :: app_globals where
  "uninitialised_globals = \<lparr>db = Some (demo_db accepts_updates), bucket = None\<rparr>"

definition demo_splatfacto_dir :: path where
  "demo_splatfacto_dir = [''tmp'', ''nerfstudio_jobs'', ''j1'', ''nerf_output'', ''splatfacto'']"

text \<open>A world in which the directory of the job is already there, with a file in it.\<close>

definition stale_world :: world where
  "stale_world = demo_world\<lparr>fs := in_job_dir [(''stale.bin'', File)]\<rparr>"

section \<open>Observing a run\<close>

text \<open>The events a run has added to the record.\<close>

definition events_since :: "world \<Rightarrow> world \<Rightarrow> event list" where
  "events_since w w' = drop (length (trace w)) (trace w')"

text \<open>
  A computation is quiet when it writes no status, removes nothing and leaves the
  document store as it is.
\<close>

definition quiet :: "'a io \<Rightarrow> bool" where
  "quiet m = (\<forall>w r w'. m w = (r, w') \<longrightarrow>
     docs w' = docs w \<and>
     (\<exists>ev. trace w' = trace w @ ev \<and> filter is_status_write ev = []
        \<and> filter is_rmtree ev = []))"

section \<open>Facts about the file system\<close>

lemma map_of_rewrite_entry:
  "map_of (map (\<lambda>e. if fst e = c then (fst e, f (snd e)) else e) es) c = map_option f (map_of es c)"
  by (induction es) auto

lemma map_of_filter_neq: "map_of (filter (\<lambda>e. fst e \<noteq> c) es) c = None"
  by (induction es) auto

lemma lookup_remove_tree: "p \<noteq> [] \<Longrightarrow> lookup (remove_tree n p) p = None"
proof (induction n p rule: remove_tree.induct)
  case (4 es c v va)
  have m: "map_of (map (\<lambda>e. if fst e = c then (fst e, remove_tree (snd e) (v # va)) else e) es) c
        = map_option (\<lambda>n. remove_tree n (v # va)) (map_of es c)"
    by (rule map_of_rewrite_entry [where f = "\<lambda>n. remove_tree n (v # va)"])
  show ?case
  proof (cases "map_of es c")
    case None
    then show ?thesis using m by simp
  next
    case (Some b)
    then have "(c, b) \<in> set es" by (rule map_of_SomeD)
    then have "lookup (remove_tree b (v # va)) (v # va) = None"
      using "4.IH" [of "(c, b)"] by simp
    then show ?thesis using m Some by simp
  qed
qed (simp_all add: map_of_filter_neq)

lemma lookup_append:
  "lookup n (p @ q) = (case lookup n p of None \<Rightarrow> None | Some n' \<Rightarrow> lookup n' q)"
  by (induction n p rule: lookup.induct) (auto split: option.splits)

lemma lookup_child:
  "lookup (Dir es) [d] = map_of es d"
  by (simp split: option.splits)

lemma sorted_le_last:
  fixes ys :: "'a::linorder list"
  shows "sorted ys \<Longrightarrow> x \<in> set ys \<Longrightarrow> x \<le> last ys"
  by (induction ys) auto

lemma training_dirs_set:
  assumes "lookup root parent = Some (Dir es)"
  shows "\<exists>ds. training_dirs root parent = Inr ds \<and> sorted ds
     \<and> set ds = {d. os_path_isdir root (os_path_join parent d)}"
proof -
  have "d \<in> fst ` set es" if "os_path_isdir root (os_path_join parent d)" for d
  proof -
    from that obtain es' where "map_of es d = Some (Dir es')"
      using assms
      by (auto simp: os_path_isdir_def os_path_join_def lookup_append
               split: option.splits node.splits)
    then have "(d, Dir es') \<in> set es" by (rule map_of_SomeD)
    then show ?thesis by force
  qed
  then show ?thesis
    using assms by (auto simp: training_dirs_def os_listdir_def)
qed

lemma latest_training_dir_none:
  assumes "\<not> os_path_exists root parent \<or> (\<forall>d. \<not> os_path_isdir root (os_path_join parent d))"
  shows "\<exists>e. latest_training_dir root parent = Inl e"
proof (cases "lookup root parent")
  case None
  then show ?thesis by (simp add: latest_training_dir_def training_dirs_def os_listdir_def)
next
  case (Some n)
  then have nd: "\<forall>d. \<not> os_path_isdir root (os_path_join parent d)"
    using assms by (simp add: os_path_exists_def)
  show ?thesis
  proof (cases n)
    case File
    then show ?thesis using Some
      by (simp add: latest_training_dir_def training_dirs_def os_listdir_def)
  next
    case (Dir es)
    then have "filter (\<lambda>d. os_path_isdir root (os_path_join parent d)) (remdups (map fst es)) = []"
      using nd by simp
    then show ?thesis using Some Dir
      by (simp add: latest_training_dir_def training_dirs_def os_listdir_def)
  qed
qed

lemma find_config_none:
  assumes "\<not> os_path_exists (fs w) (os_path_join output_dir ''splatfacto'')
           \<or> (\<forall>d. \<not> os_path_isdir (fs w) (os_path_join (os_path_join output_dir ''splatfacto'') d))"
  shows "\<exists>line. find_config job_id output_dir w =
           (Inl (FileNotFoundError (''Could not find config.yml in ''
                   @ path_str (os_path_join output_dir ''splatfacto''))),
            record_event (Print line) w)"
proof -
  from latest_training_dir_none [OF assms] obtain e where
    "latest_training_dir (fs w) (os_path_join output_dir ''splatfacto'') = Inl e" by blast
  then have "find_config job_id output_dir w =
           (Inl (FileNotFoundError (''Could not find config.yml in ''
                   @ path_str (os_path_join output_dir ''splatfacto''))),
            record_event (Print (job_tag job_id @ ''Error finding config.yml automatically: ''
                       @ str_exn e)) w)"
    by (simp add: find_config_def)
  then show ?thesis by (rule exI)
qed

section \<open>What the handlers do to the world\<close>

lemma lookup_prefix_exists:
  "os_path_exists root (p @ q) \<Longrightarrow> os_path_exists root p"
  by (simp add: os_path_exists_def lookup_append split: option.splits)

lemma update_firestore_effect:
  assumes "db g = Some d"
    and "update_firestore g doc_id status splat_url w = (r, w')"
  shows "trace w' = trace w @ [StatusWrite doc_id (update_data status splat_url)]
       \<and> fs w' = fs w
       \<and> ((\<exists>e. r = Inl e) \<longleftrightarrow> doc_update d doc_id (update_data status splat_url) \<noteq> None)
       \<and> (doc_update d doc_id (update_data status splat_url) = None \<longrightarrow>
            (\<exists>flds. docs w' doc_id = Some flds \<and> flds ''processingStatus'' = Some status))"
  using assms
  by (auto simp: update_firestore_def record_event_def update_data_def Let_def
           split: option.splits)

lemma shutil_rmtree_effect:
  assumes "shutil_rmtree os p w = (r, w')"
  shows "trace w' = trace w @ [Rmtree p] \<and> docs w' = docs w
       \<and> (r = Inr () \<longrightarrow> p \<noteq> [] \<longrightarrow> \<not> os_path_exists (fs w') p)
       \<and> (\<forall>e. r = Inl e \<longrightarrow> fs w' = fs w)
       \<and> (os_path_exists (fs w) p \<longrightarrow>
            r = (case rmtree_error os (length (filter is_rmtree (trace w))) of
                   None \<Rightarrow> Inr () | Some msg \<Rightarrow> Inl (OSError msg)))"
  using assms
  by (auto simp: shutil_rmtree_def record_event_def Let_def os_path_exists_def
                 lookup_remove_tree
           split: option.splits if_splits)


lemma mark_failed_and_clean_effect:
  assumes d: "db g = Some d" and p: "p \<noteq> []"
    and run: "mark_failed_and_clean g os job_id doc_id p w = (r, w')"
  shows "\<exists>ev. trace w' = trace w @ ev
         \<and> filter is_status_write ev = [StatusWrite doc_id [(''processingStatus'', ''failed'')]]
         \<and> filter is_run ev = [] \<and> filter is_upload ev = []
         \<and> (doc_update d doc_id [(''processingStatus'', ''failed'')] = None \<longrightarrow>
              (\<exists>flds. docs w' doc_id = Some flds \<and> flds ''processingStatus'' = Some ''failed''))
         \<and> (r = Inr () \<longrightarrow> \<not> os_path_exists (fs w') p)
         \<and> (\<forall>e. r = Inl e \<longrightarrow> fs w' = fs w)
         \<and> (os_path_exists (fs w) p \<longrightarrow>
              r = (case rmtree_error os (length (filter is_rmtree (trace w))) of
                     None \<Rightarrow> Inr () | Some msg \<Rightarrow> Inl (OSError msg)))
         \<and> (\<not> os_path_exists (fs w) p \<longrightarrow> r = Inr ())"
proof -
  obtain r1 w1 where u: "update_firestore g doc_id ''failed'' None w = (r1, w1)"
    by (cases "update_firestore g doc_id ''failed'' None w") auto
  from update_firestore_effect [OF d u]
  have t1: "trace w1 = trace w @ [StatusWrite doc_id [(''processingStatus'', ''failed'')]]"
    and f1: "fs w1 = fs w"
    and d1: "doc_update d doc_id [(''processingStatus'', ''failed'')] = None \<longrightarrow>
              (\<exists>flds. docs w1 doc_id = Some flds \<and> flds ''processingStatus'' = Some ''failed'')"
    by (simp_all add: update_data_def)
  define w2 where "w2 = (case r1 of
       Inl db_err \<Rightarrow> record_event (Print (job_tag job_id
            @ ''Also failed to update Firestore status to failed: '' @ str_exn db_err)) w1
     | Inr u \<Rightarrow> w1)"
  define w3 where "w3 = record_event
     (Print (job_tag job_id @ ''Cleaning up failed job directory: '' @ path_str p)) w2"
  have t3: "\<exists>ev. trace w3 = trace w @ ev
         \<and> filter is_status_write ev = [StatusWrite doc_id [(''processingStatus'', ''failed'')]]
         \<and> filter is_run ev = [] \<and> filter is_upload ev = [] \<and> filter is_rmtree ev = []"
    using t1 by (cases r1) (simp_all add: w3_def w2_def record_event_def)
  have f3: "fs w3 = fs w" using f1 by (cases r1) (simp_all add: w3_def w2_def record_event_def)
  have d3: "docs w3 = docs w1" by (cases r1) (simp_all add: w3_def w2_def record_event_def)
  have n3: "length (filter is_rmtree (trace w3)) = length (filter is_rmtree (trace w))"
    using t3 by auto
  have body: "mark_failed_and_clean g os job_id doc_id p w
      = (if os_path_exists (fs w3) p then shutil_rmtree os p w3 else (Inr (), w3))"
    using u by (cases r1) (simp_all add: mark_failed_and_clean_def w3_def w2_def Let_def)
  show ?thesis
  proof (cases "os_path_exists (fs w3) p")
    case False
    then have "r = Inr ()" "w' = w3" using run body by simp_all
    then show ?thesis using False t3 f3 d3 d1 by auto
  next
    case True
    then have rm: "shutil_rmtree os p w3 = (r, w')" using run body by simp
    from shutil_rmtree_effect [OF rm] t3 f3 d3 d1 n3 True p
    show ?thesis by auto
  qed
qed

lemma log_processing_error_effect:
  "fs (log_processing_error job_id e w) = fs w
   \<and> docs (log_processing_error job_id e w) = docs w
   \<and> (\<exists>ev. trace (log_processing_error job_id e w) = trace w @ ev
         \<and> filter is_status_write ev = [] \<and> filter is_run ev = []
         \<and> filter is_upload ev = [] \<and> filter is_rmtree ev = [])"
  by (cases e) (simp_all add: record_event_def)

lemma handle_processing_error_effect:
  assumes d: "db g = Some d" and p: "p \<noteq> []"
    and run: "handle_processing_error g os job_id doc_id p e w = (r, w')"
  shows "\<exists>ev. trace w' = trace w @ ev
         \<and> filter is_status_write ev = [StatusWrite doc_id [(''processingStatus'', ''failed'')]]
         \<and> filter is_run ev = [] \<and> filter is_upload ev = []
         \<and> (doc_update d doc_id [(''processingStatus'', ''failed'')] = None \<longrightarrow>
              (\<exists>flds. docs w' doc_id = Some flds \<and> flds ''processingStatus'' = Some ''failed''))
         \<and> (\<forall>resp. r = Inr resp \<longrightarrow> resp = error_response e \<and> \<not> os_path_exists (fs w') p)
         \<and> (\<forall>e'. r = Inl e' \<longrightarrow> fs w' = fs w)
         \<and> (os_path_exists (fs w) p \<longrightarrow>
              r = (case rmtree_error os (length (filter is_rmtree (trace w))) of
                     None \<Rightarrow> Inr (error_response e) | Some msg \<Rightarrow> Inl (OSError msg)))
         \<and> (\<not> os_path_exists (fs w) p \<longrightarrow> r = Inr (error_response e))"
proof -
  define w0 where "w0 = log_processing_error job_id e w"
  obtain r1 w1 where m: "mark_failed_and_clean g os job_id doc_id p w0 = (r1, w1)"
    by (cases "mark_failed_and_clean g os job_id doc_id p w0") auto
  have res: "r = (case r1 of Inl e' \<Rightarrow> Inl e' | Inr u \<Rightarrow> Inr (error_response e))" "w' = w1"
    using run m by (auto simp: handle_processing_error_def w0_def split: sum.splits)
  from log_processing_error_effect [of job_id e w, folded w0_def]
  obtain ev0 where l: "fs w0 = fs w" "docs w0 = docs w" "trace w0 = trace w @ ev0"
     "filter is_status_write ev0 = []" "filter is_run ev0 = []" "filter is_upload ev0 = []"
     "filter is_rmtree ev0 = []"
    by (elim exE conjE) (rule that)
  have n: "length (filter is_rmtree (trace w0)) = length (filter is_rmtree (trace w))"
    using l by simp
  from mark_failed_and_clean_effect [OF d p m] obtain ev1 where
    e1: "trace w1 = trace w0 @ ev1"
      "filter is_status_write ev1 = [StatusWrite doc_id [(''processingStatus'', ''failed'')]]"
      "filter is_run ev1 = []" "filter is_upload ev1 = []"
      "doc_update d doc_id [(''processingStatus'', ''failed'')] = None \<longrightarrow>
              (\<exists>flds. docs w1 doc_id = Some flds \<and> flds ''processingStatus'' = Some ''failed'')"
      "r1 = Inr () \<longrightarrow> \<not> os_path_exists (fs w1) p"
      "\<forall>e. r1 = Inl e \<longrightarrow> fs w1 = fs w0"
      "os_path_exists (fs w0) p \<longrightarrow>
              r1 = (case rmtree_error os (length (filter is_rmtree (trace w0))) of
                     None \<Rightarrow> Inr () | Some msg \<Rightarrow> Inl (OSError msg))"
      "\<not> os_path_exists (fs w0) p \<longrightarrow> r1 = Inr ()"
    by (elim exE conjE) (rule that)
  have tr: "trace w' = trace w @ (ev0 @ ev1)" using e1(1) l(3) res(2) by simp
  have a1: "filter is_status_write (ev0 @ ev1) = [StatusWrite doc_id [(''processingStatus'', ''failed'')]]"
    and a2: "filter is_run (ev0 @ ev1) = []" and a3: "filter is_upload (ev0 @ ev1) = []"
    using l e1 by simp_all
  have a4: "doc_update d doc_id [(''processingStatus'', ''failed'')] = None \<longrightarrow>
              (\<exists>flds. docs w' doc_id = Some flds \<and> flds ''processingStatus'' = Some ''failed'')"
    using e1(5) res(2) by simp
  have a5: "\<forall>resp. r = Inr resp \<longrightarrow> resp = error_response e \<and> \<not> os_path_exists (fs w') p"
    using res e1(6) by (cases r1) auto
  have a6: "\<forall>e'. r = Inl e' \<longrightarrow> fs w' = fs w"
    using res e1(7) l(1) by (cases r1) auto
  have a7: "os_path_exists (fs w) p \<longrightarrow>
              r = (case rmtree_error os (length (filter is_rmtree (trace w))) of
                     None \<Rightarrow> Inr (error_response e) | Some msg \<Rightarrow> Inl (OSError msg))"
    using res e1(8) l(1) n by (auto split: option.splits)
  have a8: "\<not> os_path_exists (fs w) p \<longrightarrow> r = Inr (error_response e)"
    using res e1(9) l(1) by auto
  show ?thesis
    by (rule exI [of _ "ev0 @ ev1"]) (intro conjI tr a1 a2 a3 a4 a5 a6 a7 a8)
qed


lemma handle_request_valid:
  assumes req: "map_of data ''videoStoragePath'' = Some (JStr video_storage_path)"
               "map_of data ''firestoreDocId'' = Some doc_id"
    and mk: "os_makedirs os (os_path_join base_work_dir (uuid4 os)) True (fs w) = Inr root1"
  shows "handle_request g os (Inr (JObj data)) w =
      (case processing_steps g os (uuid4 os) video_storage_path doc_id
              (case map_of data ''userId'' of None \<Rightarrow> JStr ''unknown_user'' | Some u \<Rightarrow> u)
              (os_path_join base_work_dir (uuid4 os)) (w\<lparr>fs := root1\<rparr>) of
         (Inr resp, w1) \<Rightarrow> (Inr resp, w1)
       | (Inl e, w1) \<Rightarrow>
           handle_processing_error g os (uuid4 os) doc_id
             (os_path_join base_work_dir (uuid4 os)) e w1)"
proof -
  have ne: "data \<noteq> []" using req by auto
  have inc: "payload_incomplete (JObj data) = Inr False"
    using req ne by (simp add: payload_incomplete_def)
  show ?thesis
    using req mk
    by (simp add: handle_request_def inc basename_of_def py_str_def Let_def)
qed

lemma endpoint_valid_request:
  assumes init: "db g = Some d" "bucket g = Some b"
    and req: "map_of data ''videoStoragePath'' = Some (JStr video_storage_path)"
             "map_of data ''firestoreDocId'' = Some doc_id"
    and mk: "os_makedirs os (os_path_join base_work_dir (uuid4 os)) True (fs w) = Inr root1"
  shows "process_video_endpoint g os (Inr (JObj data)) w =
    (case processing_steps g os (uuid4 os) video_storage_path doc_id
            (case map_of data ''userId'' of None \<Rightarrow> JStr ''unknown_user'' | Some u \<Rightarrow> u)
            (os_path_join base_work_dir (uuid4 os)) (w\<lparr>fs := root1\<rparr>) of
       (Inr resp, w1) \<Rightarrow> (resp, w1)
     | (Inl e, w1) \<Rightarrow>
         (case handle_processing_error g os (uuid4 os) doc_id
                 (os_path_join base_work_dir (uuid4 os)) e w1 of
            (Inr resp, w2) \<Rightarrow> (resp, w2)
          | (Inl e', w2) \<Rightarrow>
              (([(''error'', JStr ''Failed to handle request''),
                 (''details'', JStr (''Error handling request: '' @ str_exn e'))], 500),
               record_event (Print (''[PRE-JOB ERROR] '' @ ''Error handling request: '' @ str_exn e'))
                 w2)))"
proof -
  have hr: "handle_request g os (Inr (JObj data)) w =
      (case processing_steps g os (uuid4 os) video_storage_path doc_id
              (case map_of data ''userId'' of None \<Rightarrow> JStr ''unknown_user'' | Some u \<Rightarrow> u)
              (os_path_join base_work_dir (uuid4 os)) (w\<lparr>fs := root1\<rparr>) of
         (Inr resp, w1) \<Rightarrow> (Inr resp, w1)
       | (Inl e, w1) \<Rightarrow>
           handle_processing_error g os (uuid4 os) doc_id
             (os_path_join base_work_dir (uuid4 os)) e w1)"
    using req mk by (rule handle_request_valid)
  show ?thesis
    using init
    by (simp add: process_video_endpoint_def hr Let_def split: prod.splits sum.splits)
qed

lemma endpoint_after_failure:
  assumes init: "db g = Some d" "bucket g = Some b"
    and req: "map_of data ''videoStoragePath'' = Some (JStr video_storage_path)"
             "map_of data ''firestoreDocId'' = Some doc_id"
    and jd: "job_dir = os_path_join base_work_dir (uuid4 os)"
    and mk: "os_makedirs os job_dir True (fs w) = Inr root1"
    and steps: "processing_steps g os (uuid4 os) video_storage_path doc_id
            (case map_of data ''userId'' of None \<Rightarrow> JStr ''unknown_user'' | Some u \<Rightarrow> u)
            job_dir (w\<lparr>fs := root1\<rparr>) = (Inl e, w1)"
    and run: "process_video_endpoint g os (Inr (JObj data)) w = (resp, w')"
  shows "\<exists>ev. trace w' = trace w1 @ ev
         \<and> filter is_status_write ev = [StatusWrite doc_id [(''processingStatus'', ''failed'')]]
         \<and> filter is_run ev = [] \<and> filter is_upload ev = []
         \<and> (doc_update d doc_id [(''processingStatus'', ''failed'')] = None \<longrightarrow>
              (\<exists>flds. docs w' doc_id = Some flds \<and> flds ''processingStatus'' = Some ''failed''))
         \<and> (\<forall>msg. os_path_exists (fs w1) job_dir
                \<and> rmtree_error os (length (filter is_rmtree (trace w1))) = Some msg \<longrightarrow>
                resp = ([(''error'', JStr ''Failed to handle request''),
                         (''details'', JStr (''Error handling request: '' @ msg))], 500)
                \<and> fs w' = fs w1
                \<and> last (trace w') = Print (''[PRE-JOB ERROR] Error handling request: '' @ msg))
         \<and> (\<not> os_path_exists (fs w1) job_dir
                \<or> rmtree_error os (length (filter is_rmtree (trace w1))) = None \<longrightarrow>
                resp = error_response e \<and> \<not> os_path_exists (fs w') job_dir)"
proof -
  obtain r2 w2 where h: "handle_processing_error g os (uuid4 os) doc_id job_dir e w1 = (r2, w2)"
    by (cases "handle_processing_error g os (uuid4 os) doc_id job_dir e w1") auto
  have jne: "job_dir \<noteq> []" by (simp add: jd os_path_join_def)
  from handle_processing_error_effect [OF init(1) jne h] obtain ev where
    ev: "trace w2 = trace w1 @ ev"
      "filter is_status_write ev = [StatusWrite doc_id [(''processingStatus'', ''failed'')]]"
      "filter is_run ev = []" "filter is_upload ev = []"
      "doc_update d doc_id [(''processingStatus'', ''failed'')] = None \<longrightarrow>
         (\<exists>flds. docs w2 doc_id = Some flds \<and> flds ''processingStatus'' = Some ''failed'')"
      "\<forall>resp. r2 = Inr resp \<longrightarrow> resp = error_response e \<and> \<not> os_path_exists (fs w2) job_dir"
      "\<forall>e'. r2 = Inl e' \<longrightarrow> fs w2 = fs w1"
      "os_path_exists (fs w1) job_dir \<longrightarrow>
         r2 = (case rmtree_error os (length (filter is_rmtree (trace w1))) of
                 None \<Rightarrow> Inr (error_response e) | Some msg \<Rightarrow> Inl (OSError msg))"
      "\<not> os_path_exists (fs w1) job_dir \<longrightarrow> r2 = Inr (error_response e)"
    by (elim exE conjE) (rule that)
  have ep: "(resp, w') = (case r2 of
       Inr resp2 \<Rightarrow> (resp2, w2)
     | Inl e' \<Rightarrow>
         (([(''error'', JStr ''Failed to handle request''),
            (''details'', JStr (''Error handling request: '' @ str_exn e'))], 500),
          record_event (Print (''[PRE-JOB ERROR] '' @ ''Error handling request: '' @ str_exn e'))
            w2))"
    using endpoint_valid_request [OF init req mk [unfolded jd]] steps [unfolded jd]
      h [unfolded jd] run
    by (cases r2) simp_all
  show ?thesis
  proof (cases r2)
    case (Inr resp2)
    then have eq: "resp = resp2" "w' = w2" using ep by simp_all
    have no: "\<forall>msg. \<not> (os_path_exists (fs w1) job_dir
                \<and> rmtree_error os (length (filter is_rmtree (trace w1))) = Some msg)"
      using ev(8) Inr by (auto split: option.splits)
    show ?thesis
      apply (rule exI [of _ ev])
      using ev(1-6) eq Inr no by auto
  next
    case (Inl e')
    then have eq: "resp = ([(''error'', JStr ''Failed to handle request''),
            (''details'', JStr (''Error handling request: '' @ str_exn e'))], 500)"
      "w' = record_event (Print (''[PRE-JOB ERROR] '' @ ''Error handling request: '' @ str_exn e'))
            w2"
      using ep by simp_all
    have ex: "os_path_exists (fs w1) job_dir" using ev(9) Inl by auto
    then obtain msg where msg: "rmtree_error os (length (filter is_rmtree (trace w1))) = Some msg"
      "e' = OSError msg"
      using ev(8) Inl by (auto split: option.splits)
    show ?thesis
      apply (rule exI [of _ "ev @ [Print (''[PRE-JOB ERROR] '' @ ''Error handling request: '' @ str_exn e')]"])
      using ev(1-5,7) eq Inl ex msg by (simp add: record_event_def)
  qed
qed

section \<open>Facts about the concrete job\<close>

lemma demo_makedirs:
  "os_makedirs (demo_os rp re) demo_job_dir True (fs demo_world) = Inr (in_job_dir [])"
  by (simp add: os_makedirs_def demo_os_def demo_job_dir_def demo_world_def in_job_dir_def)

lemma demo_job_dir_eq: "demo_job_dir = os_path_join base_work_dir (uuid4 (demo_os rp re))"
  by (simp add: demo_job_dir_def os_path_join_def base_work_dir_def demo_os_def)

lemma demo_common:
  "db (demo_globals upd) = Some (demo_db upd)"
  "bucket (demo_globals upd) = Some demo_bucket"
  "map_of demo_payload ''videoStoragePath'' = Some (JStr ''videos/u1/clip.webm'')"
  "map_of demo_payload ''firestoreDocId'' = Some (JStr ''doc1'')"
  "os_path_join demo_job_dir ''clip.webm''
      = os_path_join demo_job_dir (os_path_basename ''videos/u1/clip.webm'')"
  "blob_download_to_filename demo_bucket ''videos/u1/clip.webm''
       (os_path_join demo_job_dir ''clip.webm'') (in_job_dir []) = (None, in_job_dir demo_video)"
  by (simp_all add: demo_globals_def demo_payload_def os_path_basename_def demo_bucket_def)

lemma demo_stages:
  "run_process (demo_os (demo_run_process rc1 err1 trained exported) re)
        (process_cmd (os_path_join demo_job_dir ''clip.webm'')
           (os_path_join demo_job_dir ''nerf_data'')) root
      = Inr (rc1, err1, in_job_dir demo_data)"
  "run_process (demo_os (demo_run_process rc1 err1 trained exported) re)
        (train_cmd (os_path_join demo_job_dir ''nerf_data'')
           (os_path_join demo_job_dir ''nerf_output'')) root
      = Inr (0, [], trained)"
  "run_process (demo_os (demo_run_process rc1 err1 trained exported) re)
        (export_cmd config_path (os_path_join demo_job_dir ''nerf_output'') ''splat.ply'') root
      = Inr (0, [], exported)"
  by (simp_all add: demo_os_def demo_run_process_def process_cmd_def train_cmd_def export_cmd_def)

lemma demo_latest:
  "latest_training_dir (in_job_dir (demo_trained demo_runs))
      (os_path_join (os_path_join demo_job_dir ''nerf_output'') ''splatfacto'')
     = Inr (os_path_join (os_path_join (os_path_join demo_job_dir ''nerf_output'') ''splatfacto'')
              ''2024-02-01_101500'')"
  by (simp add: latest_training_dir_def training_dirs_def os_listdir_def os_path_isdir_def
        in_job_dir_def demo_trained_def demo_data_def demo_video_def demo_runs_def
        demo_job_dir_def os_path_join_def)

section \<open>Quiet steps and the outcome of the processing steps\<close>

lemma bind_io_elim:
  assumes "bind_io m f w = (r, w')"
  obtains (raised) e where "m w = (Inl e, w')" "r = Inl e"
        | (returned) x w1 where "m w = (Inr x, w1)" "f x w1 = (r, w')"
proof (cases "m w")
  case (Pair r1 w1)
  show ?thesis
  proof (cases r1)
    case (Inl e)
    then show ?thesis using assms Pair raised by (simp add: bind_io_def)
  next
    case (Inr x)
    then show ?thesis using assms Pair returned by (simp add: bind_io_def)
  qed
qed

lemma quietI:
  assumes "\<And>w r w'. m w = (r, w') \<Longrightarrow>
     docs w' = docs w \<and>
     (\<exists>ev. trace w' = trace w @ ev \<and> filter is_status_write ev = [] \<and> filter is_rmtree ev = [])"
  shows "quiet m"
  using assms unfolding quiet_def by blast

lemma quietD:
  assumes "quiet m" and "m w = (r, w')"
  obtains ev where "docs w' = docs w" "trace w' = trace w @ ev"
    "filter is_status_write ev = []" "filter is_rmtree ev = []"
  using assms unfolding quiet_def by blast

lemma quiet_return: "quiet (return_io x)"
  by (rule quietI) (simp add: return_io_def)

lemma quiet_raise: "quiet (raise_io e)"
  by (rule quietI) (simp add: raise_io_def)

lemma quiet_bind:
  assumes m: "quiet m" and f: "\<And>x. quiet (f x)"
  shows "quiet (bind_io m f)"
proof (rule quietI)
  fix w r w'
  assume run: "bind_io m f w = (r, w')"
  from run show "docs w' = docs w \<and>
     (\<exists>ev. trace w' = trace w @ ev \<and> filter is_status_write ev = [] \<and> filter is_rmtree ev = [])"
  proof (cases rule: bind_io_elim)
    case (raised e)
    from quietD [OF m raised(1)] show ?thesis by metis
  next
    case (returned x w1)
    from quietD [OF m returned(1)] obtain ev1 where
      a: "docs w1 = docs w" "trace w1 = trace w @ ev1"
         "filter is_status_write ev1 = []" "filter is_rmtree ev1 = []" .
    from quietD [OF f returned(2)] obtain ev2 where
      b: "docs w' = docs w1" "trace w' = trace w1 @ ev2"
         "filter is_status_write ev2 = []" "filter is_rmtree ev2 = []" .
    have "trace w' = trace w @ (ev1 @ ev2)" using a b by simp
    moreover have "filter is_status_write (ev1 @ ev2) = []" "filter is_rmtree (ev1 @ ev2) = []"
      using a b by simp_all
    ultimately show ?thesis using a(1) b(1) by metis
  qed
qed

lemma quiet_download_video: "quiet (download_video g storage_path local_path)"
  by (rule quietI)
     (auto simp: download_video_def record_event_def Let_def split: option.splits prod.splits)

lemma quiet_upload_splat: "quiet (upload_splat g local_ply_path storage_path)"
  by (rule quietI)
     (auto simp: upload_splat_def record_event_def Let_def split: option.splits sum.splits)

lemma quiet_subprocess_run: "quiet (subprocess_run os cmd capture_stderr)"
  by (rule quietI)
     (auto simp: subprocess_run_def record_event_def Let_def split: sum.splits prod.splits if_splits)

lemma quiet_find_config: "quiet (find_config job_id output_dir)"
  by (rule quietI)
     (auto simp: find_config_def record_event_def Let_def split: sum.splits if_splits)

lemma quiet_nerfstudio_commands:
  "quiet (nerfstudio_commands os job_id local_video_path data_dir output_dir)"
  unfolding nerfstudio_commands_def
  apply (intro quiet_bind quiet_subprocess_run quiet_find_config)
  apply (rule quietI)
  apply (simp add: raise_io_def return_io_def split: if_splits)
  done

lemma upload_splat_fs: "upload_splat g p s w = (r, w') \<Longrightarrow> fs w' = fs w"
  by (auto simp: upload_splat_def record_event_def Let_def split: option.splits sum.splits)

lemma nerfstudio_commands_returns:
  assumes "nerfstudio_commands os job_id local_video_path data_dir output_dir w = (Inr ply, w')"
  shows "ply = os_path_join output_dir ''splat.ply'' \<and> os_path_exists (fs w') ply"
proof -
  from assms [unfolded nerfstudio_commands_def] show ?thesis
  proof (cases rule: bind_io_elim)
    case (returned x1 w1)
    from returned(2) show ?thesis
    proof (cases rule: bind_io_elim)
      case (returned x2 w2)
      from returned(2) show ?thesis
      proof (cases rule: bind_io_elim)
        case (returned x3 w3)
        from returned(2) show ?thesis
        proof (cases rule: bind_io_elim)
          case (returned x4 w4)
          then show ?thesis
            by (simp add: raise_io_def return_io_def split: if_splits)
        qed simp
      qed simp
    qed simp
  qed simp
qed


lemma processing_steps_outcome:
  assumes d: "db g = Some d"
    and jd: "job_dir = os_path_join base_work_dir job_id"
    and run: "processing_steps g os job_id video_storage_path doc_id user_id job_dir w = (r, w')"
  shows "\<exists>ev. trace w' = trace w @ ev \<and>
     ((\<exists>e. r = Inl e) \<and> filter is_status_write ev = []
      \<or> (\<exists>e url. r = Inl e
            \<and> filter is_status_write ev = [StatusWrite doc_id (update_data ''complete'' (Some url))]
            \<and> (doc_update d doc_id (update_data ''complete'' (Some url)) \<noteq> None
                 \<or> (\<exists>n. rmtree_error os n \<noteq> None)))
      \<or> (\<exists>resp url. r = Inr resp \<and> snd resp = 200
            \<and> filter is_status_write ev = [StatusWrite doc_id (update_data ''complete'' (Some url))]
            \<and> \<not> os_path_exists (fs w') job_dir))"
proof -
  have jne: "job_dir \<noteq> []" by (simp add: jd os_path_join_def)
  from run [unfolded processing_steps_def Let_def] show ?thesis
  proof (cases rule: bind_io_elim)
    case (raised e)
    from quietD [OF quiet_download_video raised(1)] raised(2) show ?thesis by metis
  next
    case dl: (returned x1 w1)
    from quietD [OF quiet_download_video dl(1)] obtain ev1 where
      e1: "trace w1 = trace w @ ev1" "filter is_status_write ev1 = []" "filter is_rmtree ev1 = []"
      by metis
    from dl(2) show ?thesis
    proof (cases rule: bind_io_elim)
      case (raised e)
      from quietD [OF quiet_nerfstudio_commands raised(1)] obtain ev2 where
        "trace w' = trace w1 @ ev2" "filter is_status_write ev2 = []" by metis
      then have "trace w' = trace w @ (ev1 @ ev2)" "filter is_status_write (ev1 @ ev2) = []"
        using e1 by simp_all
      then show ?thesis using raised(2) by metis
    next
      case ns: (returned ply w2)
      from quietD [OF quiet_nerfstudio_commands ns(1)] obtain ev2 where
        e2: "trace w2 = trace w1 @ ev2" "filter is_status_write ev2 = []"
        by metis
      from nerfstudio_commands_returns [OF ns(1)]
      have ply: "os_path_exists (fs w2) (job_dir @ [''nerf_output'', ''splat.ply''])"
        by (auto simp: os_path_join_def)
      from ns(2) show ?thesis
      proof (cases rule: bind_io_elim)
        case (raised e)
        from quietD [OF quiet_upload_splat raised(1)] obtain ev3 where
          "trace w' = trace w2 @ ev3" "filter is_status_write ev3 = []" by metis
        then have "trace w' = trace w @ (ev1 @ ev2 @ ev3)"
          "filter is_status_write (ev1 @ ev2 @ ev3) = []"
          using e1 e2 by simp_all
        then show ?thesis using raised(2) by metis
      next
        case up: (returned url w3)
        from quietD [OF quiet_upload_splat up(1)] obtain ev3 where
          e3: "trace w3 = trace w2 @ ev3" "filter is_status_write ev3 = []"
          by metis
        have f3: "fs w3 = fs w2" using up(1) by (rule upload_splat_fs)
        define cw where "cw = StatusWrite doc_id (update_data ''complete'' (Some url))"
        from up(2) show ?thesis
        proof (cases rule: bind_io_elim)
          case (raised e)
          from update_firestore_effect [OF d raised(1)]
          have "trace w' = trace w3 @ [cw]"
            "doc_update d doc_id (update_data ''complete'' (Some url)) \<noteq> None"
            using raised(2) by (auto simp: cw_def)
          then have "trace w' = trace w @ (ev1 @ ev2 @ ev3 @ [cw])"
            "filter is_status_write (ev1 @ ev2 @ ev3 @ [cw]) = [cw]"
            "doc_update d doc_id (update_data ''complete'' (Some url)) \<noteq> None"
            using e1 e2 e3 by (simp_all add: cw_def)
          then show ?thesis using raised(2) unfolding cw_def by blast
        next
          case uf: (returned x4 w4)
          from update_firestore_effect [OF d uf(1)]
          have e4: "trace w4 = trace w3 @ [cw]" and f4: "fs w4 = fs w3"
            by (simp_all add: cw_def)
          have ex: "os_path_exists (fs w4) job_dir"
            using ply f3 f4 lookup_prefix_exists [of "fs w2" job_dir] by simp
          from uf(2) show ?thesis
          proof (cases rule: bind_io_elim)
            case (raised e)
            from shutil_rmtree_effect [OF raised(1)] ex raised(2)
            have e5: "trace w' = trace w4 @ [Rmtree job_dir]"
              and fails: "\<exists>n. rmtree_error os n \<noteq> None"
              by (auto split: option.splits)
            have "trace w' = trace w @ (ev1 @ ev2 @ ev3 @ [cw, Rmtree job_dir])"
              "filter is_status_write (ev1 @ ev2 @ ev3 @ [cw, Rmtree job_dir]) = [cw]"
              using e1 e2 e3 e4 e5 by (simp_all add: cw_def)
            then show ?thesis using raised(2) fails unfolding cw_def by blast
          next
            case rm: (returned x5 w5)
            from shutil_rmtree_effect [OF rm(1)] jne
            have e5: "trace w5 = trace w4 @ [Rmtree job_dir]"
              and f5: "\<not> os_path_exists (fs w5) job_dir" by simp_all
            from rm(2) have res: "r = Inr ([(''status'', JStr ''processing complete''),
                  (''splatUrl'', JStr url)], 200)" "w' = w5"
              by (simp_all add: return_io_def)
            have "trace w' = trace w @ (ev1 @ ev2 @ ev3 @ [cw, Rmtree job_dir])"
              "filter is_status_write (ev1 @ ev2 @ ev3 @ [cw, Rmtree job_dir]) = [cw]"
              using e1 e2 e3 e4 e5 res by (simp_all add: cw_def)
            then show ?thesis using res f5 unfolding cw_def by fastforce
          qed
        qed
      qed
    qed
  qed
qed

section \<open>The run up to the first failing command\<close>

lemma processing_steps_first_command_fails:
  assumes b: "bucket g = Some b"
    and lv: "local_video_path = os_path_join job_dir (os_path_basename video_storage_path)"
    and dl: "blob_download_to_filename b video_storage_path local_video_path (fs w) = (None, root2)"
    and st: "run_process os (process_cmd local_video_path (os_path_join job_dir ''nerf_data'')) root2
               = Inr (returncode, stderr_written, root3)"
    and nz: "returncode \<noteq> 0"
  shows "processing_steps g os job_id video_storage_path doc_id user_id job_dir w
     = (Inl (CalledProcessError returncode
               (process_cmd local_video_path (os_path_join job_dir ''nerf_data'')) None None),
        w\<lparr>fs := root3,
          trace := trace w @ [Download video_storage_path local_video_path,
             Run (process_cmd local_video_path (os_path_join job_dir ''nerf_data''))]\<rparr>)"
  using b dl st nz
  by (simp add: processing_steps_def nerfstudio_commands_def bind_io_def download_video_def
        subprocess_run_def record_event_def Let_def lv [symmetric])

section \<open>The endpoints before any job exists\<close>

text \<open>
  C10. The health check returns status 200 for every state of the globals, and its field
  \<open>firebase_initialized\<close> alone tells whether both handles are set; the processing
  endpoint returns 503 whenever one of them is missing.
\<close>

theorem health_check_200_process_503:
  "snd (health_check g) = 200
   \<and> map_of (fst (health_check g)) ''firebase_initialized''
       = Some (JBool (db g \<noteq> None \<and> bucket g \<noteq> None))
   \<and> (db g = None \<or> bucket g = None \<longrightarrow>
        snd (fst (process_video_endpoint g os request w)) = 503)"
  by (auto simp: health_check_def process_video_endpoint_def)

theorem health_check_200_process_503_witness:
  "bucket uninitialised_globals = None
   \<and> health_check uninitialised_globals
       = ([(''status'', JStr ''healthy''), (''firebase_initialized'', JBool False)], 200)
   \<and> snd (fst (process_video_endpoint uninitialised_globals (all_ok_os removal_works)
                  demo_request demo_world)) = 503"
  using health_check_200_process_503
    [of uninitialised_globals "all_ok_os removal_works" demo_request demo_world]
  by (simp add: uninitialised_globals_def health_check_def)

section \<open>Locating the output of the fitting stage\<close>

text \<open>
  C7. When the parent is a directory with at least one immediate subdirectory, the
  directory selected is the subdirectory whose name is the greatest, in the
  lexicographic order of strings, among all immediate subdirectories. Strings are
  compared character by character on the character codes, as \<open>list.sort\<close> compares
  Python's.
\<close>

theorem latest_training_dir_greatest:
  assumes "os_path_isdir root parent"
    and "os_path_isdir root (os_path_join parent d0)"
  shows "\<exists>m. latest_training_dir root parent = Inr (os_path_join parent m)
           \<and> os_path_isdir root (os_path_join parent m)
           \<and> (\<forall>d. os_path_isdir root (os_path_join parent d) \<longrightarrow> d \<le> m)"
proof -
  from assms(1) obtain es where es: "lookup root parent = Some (Dir es)"
    by (auto simp: os_path_isdir_def split: option.splits node.splits)
  from training_dirs_set [OF es] obtain ds where
    ds: "training_dirs root parent = Inr ds" and sorted: "sorted ds"
    and sds: "set ds = {d. os_path_isdir root (os_path_join parent d)}" by blast
  have dne: "ds \<noteq> []" using assms(2) sds by auto
  then have "last ds \<in> set ds" by (rule last_in_set)
  moreover have "\<forall>x\<in>set ds. x \<le> last ds"
    using sorted by (simp add: sorted_le_last)
  ultimately show ?thesis
    using ds dne sds by (auto simp: latest_training_dir_def)
qed

theorem latest_training_dir_greatest_witness:
  "os_path_isdir (in_job_dir (demo_trained demo_runs)) demo_splatfacto_dir
   \<and> os_path_isdir (in_job_dir (demo_trained demo_runs))
        (os_path_join demo_splatfacto_dir ''2024-01-31_235900'')
   \<and> (\<exists>m. latest_training_dir (in_job_dir (demo_trained demo_runs)) demo_splatfacto_dir
              = Inr (os_path_join demo_splatfacto_dir m)
          \<and> os_path_isdir (in_job_dir (demo_trained demo_runs)) (os_path_join demo_splatfacto_dir m)
          \<and> (\<forall>d. os_path_isdir (in_job_dir (demo_trained demo_runs)) (os_path_join demo_splatfacto_dir d)
                 \<longrightarrow> d \<le> m))"
proof -
  have a: "os_path_isdir (in_job_dir (demo_trained demo_runs)) demo_splatfacto_dir"
    by (simp add: os_path_isdir_def in_job_dir_def demo_trained_def demo_data_def demo_video_def
          demo_runs_def demo_splatfacto_dir_def)
  have b: "os_path_isdir (in_job_dir (demo_trained demo_runs))
             (os_path_join demo_splatfacto_dir ''2024-01-31_235900'')"
    by (simp add: os_path_isdir_def in_job_dir_def demo_trained_def demo_data_def demo_video_def
          demo_runs_def demo_splatfacto_dir_def os_path_join_def)
  show ?thesis using a b latest_training_dir_greatest [OF a b] by simp
qed

section \<open>Failures inside the pipeline\<close>

text \<open>
  C8. When the preprocessing command exits with a status other than zero, it is the only
  external command of the request: neither the fitting nor the export command is run.
  The only status written is \<open>failed\<close>, and the document holds it when the store
  accepts the write.
\<close>

theorem preprocessing_failure_stops_pipeline:
  assumes init: "db g = Some d" "bucket g = Some b"
    and req: "map_of data ''videoStoragePath'' = Some (JStr video_storage_path)"
             "map_of data ''firestoreDocId'' = Some doc_id"
    and jd: "job_dir = os_path_join base_work_dir (uuid4 os)"
    and lv: "local_video_path = os_path_join job_dir (os_path_basename video_storage_path)"
    and mk: "os_makedirs os job_dir True (fs w) = Inr root1"
    and dl: "blob_download_to_filename b video_storage_path local_video_path root1 = (None, root2)"
    and st: "run_process os (process_cmd local_video_path (os_path_join job_dir ''nerf_data'')) root2
               = Inr (returncode, stderr_written, root3)"
    and nz: "returncode \<noteq> 0"
    and w': "w' = snd (process_video_endpoint g os (Inr (JObj data)) w)"
  shows "filter is_run (events_since w w')
           = [Run (process_cmd local_video_path (os_path_join job_dir ''nerf_data''))]
       \<and> filter is_status_write (events_since w w')
           = [StatusWrite doc_id [(''processingStatus'', ''failed'')]]
       \<and> (doc_update d doc_id [(''processingStatus'', ''failed'')] = None \<longrightarrow>
            (\<exists>flds. docs w' doc_id = Some flds \<and> flds ''processingStatus'' = Some ''failed''))"
proof -
  define cmd where "cmd = process_cmd local_video_path (os_path_join job_dir ''nerf_data'')"
  define w1 where "w1 = w\<lparr>fs := root3,
     trace := trace w @ [Download video_storage_path local_video_path, Run cmd]\<rparr>"
  have steps: "processing_steps g os (uuid4 os) video_storage_path doc_id
                 (case map_of data ''userId'' of None \<Rightarrow> JStr ''unknown_user'' | Some u \<Rightarrow> u)
                 job_dir (w\<lparr>fs := root1\<rparr>)
               = (Inl (CalledProcessError returncode cmd None None), w1)"
    using processing_steps_first_command_fails [of g b local_video_path job_dir
        video_storage_path "w\<lparr>fs := root1\<rparr>" root2 os returncode stderr_written root3]
      init(2) lv dl st nz
    by (simp add: cmd_def w1_def)
  obtain resp where run: "process_video_endpoint g os (Inr (JObj data)) w = (resp, w')"
    unfolding w' by (cases "process_video_endpoint g os (Inr (JObj data)) w") auto
  from endpoint_after_failure [OF init req jd mk steps run] obtain ev where
    ev: "trace w' = trace w1 @ ev"
      "filter is_status_write ev = [StatusWrite doc_id [(''processingStatus'', ''failed'')]]"
      "filter is_run ev = []"
      "doc_update d doc_id [(''processingStatus'', ''failed'')] = None \<longrightarrow>
         (\<exists>flds. docs w' doc_id = Some flds \<and> flds ''processingStatus'' = Some ''failed'')"
    by (elim exE conjE) (rule that)
  have "events_since w w' = [Download video_storage_path local_video_path, Run cmd] @ ev"
    using ev(1) by (simp add: events_since_def w1_def)
  then show ?thesis using ev by (simp add: cmd_def)
qed

theorem preprocessing_failure_stops_pipeline_witness:
  "filter is_run (events_since demo_world
      (snd (process_video_endpoint (demo_globals accepts_updates) (stage1_fails_os removal_works)
              demo_request demo_world)))
     = [Run (process_cmd (os_path_join demo_job_dir ''clip.webm'')
               (os_path_join demo_job_dir ''nerf_data''))]
   \<and> filter is_status_write (events_since demo_world
      (snd (process_video_endpoint (demo_globals accepts_updates) (stage1_fails_os removal_works)
              demo_request demo_world)))
     = [StatusWrite (JStr ''doc1'') [(''processingStatus'', ''failed'')]]
   \<and> (\<exists>flds. docs (snd (process_video_endpoint (demo_globals accepts_updates)
                          (stage1_fails_os removal_works) demo_request demo_world)) (JStr ''doc1'')
                  = Some flds
              \<and> flds ''processingStatus'' = Some ''failed'')"
proof -
  have init: "db (demo_globals accepts_updates) = Some (demo_db accepts_updates)"
    "bucket (demo_globals accepts_updates) = Some demo_bucket"
    by (simp_all add: demo_globals_def)
  have req: "map_of demo_payload ''videoStoragePath'' = Some (JStr ''videos/u1/clip.webm'')"
    "map_of demo_payload ''firestoreDocId'' = Some (JStr ''doc1'')"
    by (simp_all add: demo_payload_def)
  have jd: "demo_job_dir = os_path_join base_work_dir (uuid4 (stage1_fails_os removal_works))"
    unfolding stage1_fails_os_def by (rule demo_job_dir_eq)
  have lv: "os_path_join demo_job_dir ''clip.webm''
      = os_path_join demo_job_dir (os_path_basename ''videos/u1/clip.webm'')"
    by (simp add: os_path_basename_def)
  have mk: "os_makedirs (stage1_fails_os removal_works) demo_job_dir True (fs demo_world)
      = Inr (in_job_dir [])"
    unfolding stage1_fails_os_def by (rule demo_makedirs)
  have dl: "blob_download_to_filename demo_bucket ''videos/u1/clip.webm''
       (os_path_join demo_job_dir ''clip.webm'') (in_job_dir []) = (None, in_job_dir demo_video)"
    by (simp add: demo_bucket_def)
  have st: "run_process (stage1_fails_os removal_works)
        (process_cmd (os_path_join demo_job_dir ''clip.webm'')
           (os_path_join demo_job_dir ''nerf_data'')) (in_job_dir demo_video)
      = Inr (1, ''boom'', in_job_dir demo_data)"
    by (simp add: stage1_fails_os_def demo_os_def demo_run_process_def process_cmd_def)
  have nz: "(1::int) \<noteq> 0" by simp
  have upd: "doc_update (demo_db accepts_updates) (JStr ''doc1'') [(''processingStatus'', ''failed'')] = None"
    by (simp add: demo_db_def accepts_updates_def)
  from preprocessing_failure_stops_pipeline [OF init req jd lv mk dl st nz refl] upd
  show ?thesis by (simp add: demo_request_def)
qed

text \<open>
  C6. When the fitting command exits with status zero but its output parent directory
  is missing or holds no subdirectory, the processing steps raise
  \<open>FileNotFoundError\<close> (not \<open>CalledProcessError\<close>), the export command is not run, and
  the only status written is \<open>failed\<close>.
\<close>

theorem empty_fitting_output_fails_before_export:
  assumes init: "db g = Some d" "bucket g = Some b"
    and req: "map_of data ''videoStoragePath'' = Some (JStr video_storage_path)"
             "map_of data ''firestoreDocId'' = Some doc_id"
    and jd: "job_dir = os_path_join base_work_dir (uuid4 os)"
    and lv: "local_video_path = os_path_join job_dir (os_path_basename video_storage_path)"
    and dd: "data_dir = os_path_join job_dir ''nerf_data''"
    and od: "output_dir = os_path_join job_dir ''nerf_output''"
    and mk: "os_makedirs os job_dir True (fs w) = Inr root1"
    and dl: "blob_download_to_filename b video_storage_path local_video_path root1 = (None, root2)"
    and st1: "run_process os (process_cmd local_video_path data_dir) root2
               = Inr (0, stderr1, root3)"
    and st2: "run_process os (train_cmd data_dir output_dir) root3 = Inr (0, stderr2, root4)"
    and none: "\<not> os_path_exists root4 (os_path_join output_dir ''splatfacto'')
           \<or> (\<forall>sub. \<not> os_path_isdir root4 (os_path_join (os_path_join output_dir ''splatfacto'') sub))"
    and w': "w' = snd (process_video_endpoint g os (Inr (JObj data)) w)"
  shows "(\<exists>w1. processing_steps g os (uuid4 os) video_storage_path doc_id
                 (case map_of data ''userId'' of None \<Rightarrow> JStr ''unknown_user'' | Some u \<Rightarrow> u)
                 job_dir (w\<lparr>fs := root1\<rparr>)
            = (Inl (FileNotFoundError (''Could not find config.yml in ''
                     @ path_str (os_path_join output_dir ''splatfacto''))), w1))
       \<and> filter is_run (events_since w w')
           = [Run (process_cmd local_video_path data_dir), Run (train_cmd data_dir output_dir)]
       \<and> filter is_status_write (events_since w w')
           = [StatusWrite doc_id [(''processingStatus'', ''failed'')]]
       \<and> (doc_update d doc_id [(''processingStatus'', ''failed'')] = None \<longrightarrow>
            (\<exists>flds. docs w' doc_id = Some flds \<and> flds ''processingStatus'' = Some ''failed''))"
proof -
  define w0 where "w0 = w\<lparr>trace := trace w @ [Download video_storage_path local_video_path,
                         Run (process_cmd local_video_path data_dir),
                         Run (train_cmd data_dir output_dir)],
     fs := root4\<rparr>"
  have "fs w0 = root4" by (simp add: w0_def)
  with none obtain line where fc: "find_config (uuid4 os) output_dir w0 =
           (Inl (FileNotFoundError (''Could not find config.yml in ''
                   @ path_str (os_path_join output_dir ''splatfacto''))),
            record_event (Print line) w0)"
    using find_config_none [of w0 output_dir "uuid4 os"] by auto
  define w1 where "w1 = record_event (Print line) w0"
  have steps: "processing_steps g os (uuid4 os) video_storage_path doc_id
                 (case map_of data ''userId'' of None \<Rightarrow> JStr ''unknown_user'' | Some u \<Rightarrow> u)
                 job_dir (w\<lparr>fs := root1\<rparr>)
               = (Inl (FileNotFoundError (''Could not find config.yml in ''
                     @ path_str (os_path_join output_dir ''splatfacto''))), w1)"
    using init dl st1 st2 fc
    by (simp add: processing_steps_def nerfstudio_commands_def bind_io_def download_video_def
          subprocess_run_def record_event_def Let_def lv [symmetric] dd [symmetric]
          od [symmetric] w0_def w1_def)
  obtain resp where run: "process_video_endpoint g os (Inr (JObj data)) w = (resp, w')"
    unfolding w' by (cases "process_video_endpoint g os (Inr (JObj data)) w") auto
  from endpoint_after_failure [OF init req jd mk steps run] obtain ev where
    ev: "trace w' = trace w1 @ ev"
      "filter is_status_write ev = [StatusWrite doc_id [(''processingStatus'', ''failed'')]]"
      "filter is_run ev = []"
      "doc_update d doc_id [(''processingStatus'', ''failed'')] = None \<longrightarrow>
         (\<exists>flds. docs w' doc_id = Some flds \<and> flds ''processingStatus'' = Some ''failed'')"
    by (elim exE conjE) (rule that)
  have "events_since w w' = [Download video_storage_path local_video_path,
                         Run (process_cmd local_video_path data_dir),
                         Run (train_cmd data_dir output_dir), Print line] @ ev"
    using ev(1) by (simp add: events_since_def w1_def w0_def record_event_def)
  then show ?thesis using ev steps by simp
qed

theorem empty_fitting_output_fails_before_export_witness:
  "(\<forall>sub. \<not> os_path_isdir (in_job_dir (demo_trained [(''notes.txt'', File)]))
             (os_path_join (os_path_join (os_path_join demo_job_dir ''nerf_output'') ''splatfacto'')
                sub))
   \<and> (\<exists>w1. processing_steps (demo_globals accepts_updates) (no_runs_os removal_works) ''j1''
              ''videos/u1/clip.webm'' (JStr ''doc1'') (JStr ''u1'') demo_job_dir
              (demo_world\<lparr>fs := in_job_dir []\<rparr>)
          = (Inl (FileNotFoundError
                    ''Could not find config.yml in /tmp/nerfstudio_jobs/j1/nerf_output/splatfacto''),
             w1))
   \<and> filter is_run (events_since demo_world
      (snd (process_video_endpoint (demo_globals accepts_updates) (no_runs_os removal_works)
              demo_request demo_world)))
     = [Run (process_cmd (os_path_join demo_job_dir ''clip.webm'')
               (os_path_join demo_job_dir ''nerf_data'')),
        Run (train_cmd (os_path_join demo_job_dir ''nerf_data'')
               (os_path_join demo_job_dir ''nerf_output''))]
   \<and> filter is_status_write (events_since demo_world
      (snd (process_video_endpoint (demo_globals accepts_updates) (no_runs_os removal_works)
              demo_request demo_world)))
     = [StatusWrite (JStr ''doc1'') [(''processingStatus'', ''failed'')]]
   \<and> (\<exists>flds. docs (snd (process_video_endpoint (demo_globals accepts_updates)
                          (no_runs_os removal_works) demo_request demo_world)) (JStr ''doc1'')
                  = Some flds
              \<and> flds ''processingStatus'' = Some ''failed'')"
proof -
  have jd: "demo_job_dir = os_path_join base_work_dir (uuid4 (no_runs_os removal_works))"
    unfolding no_runs_os_def by (rule demo_job_dir_eq)
  have mk: "os_makedirs (no_runs_os removal_works) demo_job_dir True (fs demo_world)
      = Inr (in_job_dir [])"
    unfolding no_runs_os_def by (rule demo_makedirs)
  have none: "\<forall>sub. \<not> os_path_isdir (in_job_dir (demo_trained [(''notes.txt'', File)]))
             (os_path_join (os_path_join (os_path_join demo_job_dir ''nerf_output'') ''splatfacto'')
                sub)"
    by (simp add: os_path_isdir_def os_path_join_def demo_job_dir_def in_job_dir_def
          demo_trained_def demo_data_def demo_video_def)
  have upd: "doc_update (demo_db accepts_updates) (JStr ''doc1'') [(''processingStatus'', ''failed'')] = None"
    by (simp add: demo_db_def accepts_updates_def)
  have uid: "uuid4 (no_runs_os removal_works) = ''j1''"
    by (simp add: no_runs_os_def demo_os_def)
  have st1: "run_process (no_runs_os removal_works)
        (process_cmd (os_path_join demo_job_dir ''clip.webm'')
           (os_path_join demo_job_dir ''nerf_data'')) (in_job_dir demo_video)
      = Inr (0, [], in_job_dir demo_data)"
    unfolding no_runs_os_def by (rule demo_stages(1))
  have st2: "run_process (no_runs_os removal_works)
        (train_cmd (os_path_join demo_job_dir ''nerf_data'')
           (os_path_join demo_job_dir ''nerf_output'')) (in_job_dir demo_data)
      = Inr (0, [], in_job_dir (demo_trained [(''notes.txt'', File)]))"
    unfolding no_runs_os_def by (rule demo_stages(2))
  from empty_fitting_output_fails_before_export
    [OF demo_common(1,2,3,4) jd demo_common(5) refl refl mk demo_common(6)
        st1 st2
        disjI2 [OF none] refl] upd none
  show ?thesis
    by (simp add: demo_request_def uid demo_payload_def path_str_def os_path_join_def
          demo_job_dir_def)
qed

text \<open>
  C9. When the export command exits with status zero but the exported file is not at its
  path, the processing steps raise \<open>FileNotFoundError\<close>; nothing is uploaded, and the
  only status written is \<open>failed\<close>, so \<open>complete\<close> is never written. The reply is a
  500 and never the reply of a success: it is the internal error carrying the message of
  the \<open>FileNotFoundError\<close>, or, when the removal of the job directory fails after it,
  the error of the request-level handler.
\<close>

theorem missing_artifact_fails_before_upload:
  assumes init: "db g = Some d" "bucket g = Some b"
    and req: "map_of data ''videoStoragePath'' = Some (JStr video_storage_path)"
             "map_of data ''firestoreDocId'' = Some doc_id"
    and jd: "job_dir = os_path_join base_work_dir (uuid4 os)"
    and lv: "local_video_path = os_path_join job_dir (os_path_basename video_storage_path)"
    and dd: "data_dir = os_path_join job_dir ''nerf_data''"
    and od: "output_dir = os_path_join job_dir ''nerf_output''"
    and mk: "os_makedirs os job_dir True (fs w) = Inr root1"
    and dl: "blob_download_to_filename b video_storage_path local_video_path root1 = (None, root2)"
    and st1: "run_process os (process_cmd local_video_path data_dir) root2
               = Inr (0, stderr1, root3)"
    and st2: "run_process os (train_cmd data_dir output_dir) root3 = Inr (0, stderr2, root4)"
    and lt: "latest_training_dir root4 (os_path_join output_dir ''splatfacto'') = Inr latest"
    and cf: "os_path_exists root4 (os_path_join latest ''config.yml'')"
    and st3: "run_process os (export_cmd (os_path_join latest ''config.yml'') output_dir ''splat.ply'')
                root4 = Inr (0, stderr3, root5)"
    and absent: "\<not> os_path_exists root5 (os_path_join output_dir ''splat.ply'')"
    and run: "process_video_endpoint g os (Inr (JObj data)) w = (resp, w')"
  shows "(\<exists>w1. processing_steps g os (uuid4 os) video_storage_path doc_id
                 (case map_of data ''userId'' of None \<Rightarrow> JStr ''unknown_user'' | Some u \<Rightarrow> u)
                 job_dir (w\<lparr>fs := root1\<rparr>)
            = (Inl (FileNotFoundError (''Output PLY file not found after export at: ''
                     @ path_str (os_path_join output_dir ''splat.ply''))), w1))
       \<and> snd resp = 500
       \<and> (fst resp
             = [(''error'', JStr ''An internal server error occurred during processing''),
                (''details'',
                 JStr (''An error occurred during processing: ''
                         @ ''Output PLY file not found after export at: ''
                         @ path_str (os_path_join output_dir ''splat.ply'')))]
           \<or> (\<exists>msg. fst resp
                  = [(''error'', JStr ''Failed to handle request''),
                     (''details'', JStr (''Error handling request: '' @ msg))]))
       \<and> filter is_upload (events_since w w') = []
       \<and> filter is_status_write (events_since w w')
           = [StatusWrite doc_id [(''processingStatus'', ''failed'')]]
       \<and> (doc_update d doc_id [(''processingStatus'', ''failed'')] = None \<longrightarrow>
            (\<exists>flds. docs w' doc_id = Some flds \<and> flds ''processingStatus'' = Some ''failed''))"
proof -
  define w1 where "w1 = w\<lparr>fs := root5,
     trace := trace w @ [Download video_storage_path local_video_path,
                         Run (process_cmd local_video_path data_dir),
                         Run (train_cmd data_dir output_dir),
                         Run (export_cmd (os_path_join latest ''config.yml'') output_dir ''splat.ply'')]\<rparr>"
  have steps: "processing_steps g os (uuid4 os) video_storage_path doc_id
                 (case map_of data ''userId'' of None \<Rightarrow> JStr ''unknown_user'' | Some u \<Rightarrow> u)
                 job_dir (w\<lparr>fs := root1\<rparr>)
               = (Inl (FileNotFoundError (''Output PLY file not found after export at: ''
                     @ path_str (os_path_join output_dir ''splat.ply''))), w1)"
    using init dl st1 st2 lt cf st3 absent
    by (simp add: processing_steps_def nerfstudio_commands_def bind_io_def download_video_def
          subprocess_run_def find_config_def record_event_def raise_io_def Let_def
          lv [symmetric] dd [symmetric] od [symmetric] w1_def)
  from endpoint_after_failure [OF init req jd mk steps run] obtain ev where
    ev: "trace w' = trace w1 @ ev"
      "filter is_status_write ev = [StatusWrite doc_id [(''processingStatus'', ''failed'')]]"
      "filter is_upload ev = []"
      "doc_update d doc_id [(''processingStatus'', ''failed'')] = None \<longrightarrow>
         (\<exists>flds. docs w' doc_id = Some flds \<and> flds ''processingStatus'' = Some ''failed'')"
    and masked: "\<forall>msg. os_path_exists (fs w1) job_dir
                \<and> rmtree_error os (length (filter is_rmtree (trace w1))) = Some msg \<longrightarrow>
                resp = ([(''error'', JStr ''Failed to handle request''),
                         (''details'', JStr (''Error handling request: '' @ msg))], 500)
                \<and> fs w' = fs w1
                \<and> last (trace w') = Print (''[PRE-JOB ERROR] Error handling request: '' @ msg)"
    and plain: "\<not> os_path_exists (fs w1) job_dir
                \<or> rmtree_error os (length (filter is_rmtree (trace w1))) = None \<longrightarrow>
                resp = error_response (FileNotFoundError
                         (''Output PLY file not found after export at: ''
                            @ path_str (os_path_join output_dir ''splat.ply'')))
                \<and> \<not> os_path_exists (fs w') job_dir"
    by (elim exE conjE) (rule that)
  have reply: "snd resp = 500
       \<and> (fst resp
             = [(''error'', JStr ''An internal server error occurred during processing''),
                (''details'',
                 JStr (''An error occurred during processing: ''
                         @ ''Output PLY file not found after export at: ''
                         @ path_str (os_path_join output_dir ''splat.ply'')))]
           \<or> (\<exists>msg. fst resp
                  = [(''error'', JStr ''Failed to handle request''),
                     (''details'', JStr (''Error handling request: '' @ msg))]))"
  proof (cases "rmtree_error os (length (filter is_rmtree (trace w1)))")
    case None
    with plain show ?thesis by simp
  next
    case (Some msg)
    show ?thesis
    proof (cases "os_path_exists (fs w1) job_dir")
      case True
      with masked Some have "resp = ([(''error'', JStr ''Failed to handle request''),
                         (''details'', JStr (''Error handling request: '' @ msg))], 500)"
        by blast
      then show ?thesis by simp
    next
      case False
      with plain show ?thesis by simp
    qed
  qed
  have "events_since w w' = [Download video_storage_path local_video_path,
                         Run (process_cmd local_video_path data_dir),
                         Run (train_cmd data_dir output_dir),
                         Run (export_cmd (os_path_join latest ''config.yml'') output_dir ''splat.ply'')] @ ev"
    using ev(1) by (simp add: events_since_def w1_def)
  then show ?thesis using ev steps reply by simp
qed

theorem missing_artifact_fails_before_upload_witness:
  "\<not> os_path_exists (in_job_dir (demo_trained demo_runs))
        (os_path_join (os_path_join demo_job_dir ''nerf_output'') ''splat.ply'')
   \<and> (\<exists>w1. processing_steps (demo_globals accepts_updates) (no_artifact_os removal_works) ''j1''
              ''videos/u1/clip.webm'' (JStr ''doc1'') (JStr ''u1'') demo_job_dir
              (demo_world\<lparr>fs := in_job_dir []\<rparr>)
          = (Inl (FileNotFoundError
                    ''Output PLY file not found after export at: /tmp/nerfstudio_jobs/j1/nerf_output/splat.ply''),
             w1))
   \<and> fst (process_video_endpoint (demo_globals accepts_updates) (no_artifact_os removal_works)
            demo_request demo_world)
     = ([(''error'', JStr ''An internal server error occurred during processing''),
         (''details'',
          JStr ''An error occurred during processing: Output PLY file not found after export at: /tmp/nerfstudio_jobs/j1/nerf_output/splat.ply'')],
        500)
   \<and> filter is_upload (events_since demo_world
      (snd (process_video_endpoint (demo_globals accepts_updates) (no_artifact_os removal_works)
              demo_request demo_world))) = []
   \<and> filter is_status_write (events_since demo_world
      (snd (process_video_endpoint (demo_globals accepts_updates) (no_artifact_os removal_works)
              demo_request demo_world)))
     = [StatusWrite (JStr ''doc1'') [(''processingStatus'', ''failed'')]]
   \<and> (\<exists>flds. docs (snd (process_video_endpoint (demo_globals accepts_updates)
                          (no_artifact_os removal_works) demo_request demo_world)) (JStr ''doc1'')
                  = Some flds
              \<and> flds ''processingStatus'' = Some ''failed'')"
proof -
  have jd: "demo_job_dir = os_path_join base_work_dir (uuid4 (no_artifact_os removal_works))"
    unfolding no_artifact_os_def by (rule demo_job_dir_eq)
  have mk: "os_makedirs (no_artifact_os removal_works) demo_job_dir True (fs demo_world)
      = Inr (in_job_dir [])"
    unfolding no_artifact_os_def by (rule demo_makedirs)
  have uid: "uuid4 (no_artifact_os removal_works) = ''j1''"
    by (simp add: no_artifact_os_def demo_os_def)
  have st1: "run_process (no_artifact_os removal_works)
        (process_cmd (os_path_join demo_job_dir ''clip.webm'')
           (os_path_join demo_job_dir ''nerf_data'')) (in_job_dir demo_video)
      = Inr (0, [], in_job_dir demo_data)"
    unfolding no_artifact_os_def by (rule demo_stages(1))
  have st2: "run_process (no_artifact_os removal_works)
        (train_cmd (os_path_join demo_job_dir ''nerf_data'')
           (os_path_join demo_job_dir ''nerf_output'')) (in_job_dir demo_data)
      = Inr (0, [], in_job_dir (demo_trained demo_runs))"
    unfolding no_artifact_os_def by (rule demo_stages(2))
  have cf: "os_path_exists (in_job_dir (demo_trained demo_runs))
       (os_path_join (os_path_join (os_path_join (os_path_join demo_job_dir ''nerf_output'')
            ''splatfacto'') ''2024-02-01_101500'') ''config.yml'')"
    by (simp add: os_path_exists_def in_job_dir_def demo_trained_def demo_data_def
          demo_video_def demo_runs_def demo_job_dir_def os_path_join_def)
  have st3: "run_process (no_artifact_os removal_works)
        (export_cmd (os_path_join (os_path_join (os_path_join (os_path_join demo_job_dir
             ''nerf_output'') ''splatfacto'') ''2024-02-01_101500'') ''config.yml'')
           (os_path_join demo_job_dir ''nerf_output'') ''splat.ply'')
        (in_job_dir (demo_trained demo_runs))
      = Inr (0, [], in_job_dir (demo_trained demo_runs))"
    unfolding no_artifact_os_def by (rule demo_stages(3))
  have absent: "\<not> os_path_exists (in_job_dir (demo_trained demo_runs))
        (os_path_join (os_path_join demo_job_dir ''nerf_output'') ''splat.ply'')"
    by (simp add: os_path_exists_def in_job_dir_def demo_trained_def demo_data_def
          demo_video_def demo_runs_def demo_job_dir_def os_path_join_def)
  have upd: "doc_update (demo_db accepts_updates) (JStr ''doc1'') [(''processingStatus'', ''failed'')] = None"
    by (simp add: demo_db_def accepts_updates_def)
  have reply: "fst (process_video_endpoint (demo_globals accepts_updates)
            (no_artifact_os removal_works) demo_request demo_world)
     = ([(''error'', JStr ''An internal server error occurred during processing''),
         (''details'',
          JStr ''An error occurred during processing: Output PLY file not found after export at: /tmp/nerfstudio_jobs/j1/nerf_output/splat.ply'')],
        500)"
    by code_simp
  from missing_artifact_fails_before_upload
    [OF demo_common(1,2,3,4) jd demo_common(5) refl refl mk demo_common(6)
        st1 st2 demo_latest cf st3 absent surjective_pairing] upd absent
  have "(\<exists>w1. processing_steps (demo_globals accepts_updates) (no_artifact_os removal_works) ''j1''
              ''videos/u1/clip.webm'' (JStr ''doc1'') (JStr ''u1'') demo_job_dir
              (demo_world\<lparr>fs := in_job_dir []\<rparr>)
          = (Inl (FileNotFoundError
                    ''Output PLY file not found after export at: /tmp/nerfstudio_jobs/j1/nerf_output/splat.ply''),
             w1))
   \<and> filter is_upload (events_since demo_world
      (snd (process_video_endpoint (demo_globals accepts_updates) (no_artifact_os removal_works)
              demo_request demo_world))) = []
   \<and> filter is_status_write (events_since demo_world
      (snd (process_video_endpoint (demo_globals accepts_updates) (no_artifact_os removal_works)
              demo_request demo_world)))
     = [StatusWrite (JStr ''doc1'') [(''processingStatus'', ''failed'')]]
   \<and> (\<exists>flds. docs (snd (process_video_endpoint (demo_globals accepts_updates)
                          (no_artifact_os removal_works) demo_request demo_world)) (JStr ''doc1'')
                  = Some flds
              \<and> flds ''processingStatus'' = Some ''failed'')"
    by (simp add: demo_request_def uid demo_payload_def path_str_def os_path_join_def
          demo_job_dir_def)
  then show ?thesis using absent reply by simp
qed

section \<open>Status writes and the workspace on every path\<close>

text \<open>
  C1, as stated, fails. The store rejects the write of \<open>complete\<close>, and nothing else
  fails: two status writes are attempted for the job, \<open>complete\<close> and then \<open>failed\<close>.
\<close>

theorem two_status_writes_attempted:
  "filter is_status_write
     (events_since demo_world
        (snd (process_video_endpoint (demo_globals rejects_complete) (all_ok_os removal_works)
                demo_request demo_world)))
     = [StatusWrite (JStr ''doc1'')
          [(''processingStatus'', ''complete''),
           (''splatModelUrl'', ''https://storage.example/splat-models/u1/doc1.ply'')],
        StatusWrite (JStr ''doc1'') [(''processingStatus'', ''failed'')]]
   \<and> snd (fst (process_video_endpoint (demo_globals rejects_complete) (all_ok_os removal_works)
                demo_request demo_world)) = 500"
  by code_simp

text \<open>
  C1, amended. For every request whose \<open>videoStoragePath\<close> is a string and whose job
  directory has been created, whatever the removals do, the status writes attempted for
  the job are \<open>failed\<close> alone, or \<open>complete\<close> alone with the response 200, or
  \<open>complete\<close> followed by \<open>failed\<close>. If moreover no recursive removal fails, the job
  directory does not exist when the endpoint has returned, and \<open>complete\<close> is followed
  by \<open>failed\<close> only when the store raised on the write of \<open>complete\<close>.
\<close>

theorem one_status_write_and_workspace_removed:
  assumes init: "db g = Some d" "bucket g = Some b"
    and req: "map_of data ''videoStoragePath'' = Some (JStr video_storage_path)"
             "map_of data ''firestoreDocId'' = Some doc_id"
    and jd: "job_dir = os_path_join base_work_dir (uuid4 os)"
    and mk: "os_makedirs os job_dir True (fs w) = Inr root1"
    and run: "process_video_endpoint g os (Inr (JObj data)) w = (resp, w')"
  shows "(filter is_status_write (events_since w w')
           = [StatusWrite doc_id [(''processingStatus'', ''failed'')]]
        \<or> (\<exists>url. filter is_status_write (events_since w w')
                    = [StatusWrite doc_id (update_data ''complete'' (Some url))]
                \<and> snd resp = 200)
        \<or> (\<exists>url. filter is_status_write (events_since w w')
                    = [StatusWrite doc_id (update_data ''complete'' (Some url)),
                       StatusWrite doc_id [(''processingStatus'', ''failed'')]]))
     \<and> ((\<forall>n. rmtree_error os n = None) \<longrightarrow>
          \<not> os_path_exists (fs w') job_dir
          \<and> (\<forall>url. filter is_status_write (events_since w w')
                    = [StatusWrite doc_id (update_data ''complete'' (Some url)),
                       StatusWrite doc_id [(''processingStatus'', ''failed'')]] \<longrightarrow>
                   doc_update d doc_id (update_data ''complete'' (Some url)) \<noteq> None))"
proof -
  define user_id where
    "user_id = (case map_of data ''userId'' of None \<Rightarrow> JStr ''unknown_user'' | Some u \<Rightarrow> u)"
  define fw where "fw = StatusWrite doc_id [(''processingStatus'', ''failed'')]"
  define writes where "writes = filter is_status_write (events_since w w')"
  obtain r1 w1 where steps: "processing_steps g os (uuid4 os) video_storage_path doc_id user_id
       job_dir (w\<lparr>fs := root1\<rparr>) = (r1, w1)"
    by (cases "processing_steps g os (uuid4 os) video_storage_path doc_id user_id
       job_dir (w\<lparr>fs := root1\<rparr>)") auto
  from processing_steps_outcome [OF init(1) jd steps] obtain ev where
    tr0: "trace w1 = trace (w\<lparr>fs := root1\<rparr>) @ ev"
    and oc: "(\<exists>e. r1 = Inl e) \<and> filter is_status_write ev = []
      \<or> (\<exists>e url. r1 = Inl e
            \<and> filter is_status_write ev = [StatusWrite doc_id (update_data ''complete'' (Some url))]
            \<and> (doc_update d doc_id (update_data ''complete'' (Some url)) \<noteq> None
                 \<or> (\<exists>n. rmtree_error os n \<noteq> None)))
      \<or> (\<exists>resp url. r1 = Inr resp \<and> snd resp = 200
            \<and> filter is_status_write ev = [StatusWrite doc_id (update_data ''complete'' (Some url))]
            \<and> \<not> os_path_exists (fs w1) job_dir)"
    by (elim exE conjE) (rule that)
  have tr: "trace w1 = trace w @ ev" using tr0 by simp
  have shape: "(writes = [fw]
        \<or> (\<exists>url. writes = [StatusWrite doc_id (update_data ''complete'' (Some url))]
                \<and> snd resp = 200)
        \<or> (\<exists>url. writes = [StatusWrite doc_id (update_data ''complete'' (Some url)), fw]))
     \<and> ((\<forall>n. rmtree_error os n = None) \<longrightarrow>
          \<not> os_path_exists (fs w') job_dir
          \<and> (\<forall>url. writes = [StatusWrite doc_id (update_data ''complete'' (Some url)), fw] \<longrightarrow>
                   doc_update d doc_id (update_data ''complete'' (Some url)) \<noteq> None))"
  proof (cases r1)
    case (Inl e)
    from endpoint_after_failure [OF init req jd mk steps [unfolded user_id_def Inl] run]
    obtain ev' where
      f: "trace w' = trace w1 @ ev'"
         "filter is_status_write ev' = [StatusWrite doc_id [(''processingStatus'', ''failed'')]]"
         "\<not> os_path_exists (fs w1) job_dir
                \<or> rmtree_error os (length (filter is_rmtree (trace w1))) = None \<longrightarrow>
                resp = error_response e \<and> \<not> os_path_exists (fs w') job_dir"
      by (elim exE conjE) (rule that)
    have gone: "(\<forall>n. rmtree_error os n = None) \<longrightarrow> \<not> os_path_exists (fs w') job_dir"
      using f(3) by simp
    have es: "writes = filter is_status_write ev @ [fw]"
      using tr f(1,2) by (simp add: events_since_def fw_def writes_def)
    from oc Inl have "filter is_status_write ev = []
      \<or> (\<exists>url. filter is_status_write ev = [StatusWrite doc_id (update_data ''complete'' (Some url))]
            \<and> (doc_update d doc_id (update_data ''complete'' (Some url)) \<noteq> None
                 \<or> (\<exists>n. rmtree_error os n \<noteq> None)))"
      by auto
    then show ?thesis
    proof
      assume "filter is_status_write ev = []"
      then have "writes = [fw]" using es by simp
      then show ?thesis using gone by simp
    next
      assume "\<exists>url. filter is_status_write ev
                  = [StatusWrite doc_id (update_data ''complete'' (Some url))]
            \<and> (doc_update d doc_id (update_data ''complete'' (Some url)) \<noteq> None
                 \<or> (\<exists>n. rmtree_error os n \<noteq> None))"
      then obtain url where
        u: "filter is_status_write ev = [StatusWrite doc_id (update_data ''complete'' (Some url))]"
           "doc_update d doc_id (update_data ''complete'' (Some url)) \<noteq> None
                 \<or> (\<exists>n. rmtree_error os n \<noteq> None)" by blast
      have w2: "writes = [StatusWrite doc_id (update_data ''complete'' (Some url)), fw]"
        using es u(1) by simp
      have only: "(\<forall>n. rmtree_error os n = None) \<longrightarrow>
          (\<forall>url'. writes = [StatusWrite doc_id (update_data ''complete'' (Some url')), fw] \<longrightarrow>
                   doc_update d doc_id (update_data ''complete'' (Some url')) \<noteq> None)"
      proof (intro impI allI)
        fix url'
        assume norm: "\<forall>n. rmtree_error os n = None"
          and "writes = [StatusWrite doc_id (update_data ''complete'' (Some url')), fw]"
        then have "update_data ''complete'' (Some url') = update_data ''complete'' (Some url)"
          using w2 by simp
        moreover have "doc_update d doc_id (update_data ''complete'' (Some url)) \<noteq> None"
          using u(2) norm by simp
        ultimately show "doc_update d doc_id (update_data ''complete'' (Some url')) \<noteq> None"
          by simp
      qed
      show ?thesis using w2 gone only by blast
    qed
  next
    case (Inr resp1)
    have "(resp, w') = (resp1, w1)"
      using endpoint_valid_request [OF init req mk [unfolded jd]] steps [unfolded jd user_id_def]
        run Inr by simp
    then have eq: "resp = resp1" "w' = w1" by simp_all
    from oc Inr obtain url where
      u: "snd resp1 = 200"
         "filter is_status_write ev = [StatusWrite doc_id (update_data ''complete'' (Some url))]"
         "\<not> os_path_exists (fs w1) job_dir"
      by auto
    have w1: "writes = [StatusWrite doc_id (update_data ''complete'' (Some url))]"
      using tr u(2) eq by (simp add: events_since_def writes_def)
    have "\<exists>url. writes = [StatusWrite doc_id (update_data ''complete'' (Some url))]
                \<and> snd resp = 200"
      using w1 u(1) eq by blast
    moreover have "\<not> os_path_exists (fs w') job_dir" using u(3) eq by simp
    moreover have "\<forall>url'. writes \<noteq> [StatusWrite doc_id (update_data ''complete'' (Some url')), fw]"
      using w1 by simp
    ultimately show ?thesis by blast
  qed
  then show ?thesis unfolding writes_def fw_def .
qed

theorem one_status_write_and_workspace_removed_witness:
  "(\<forall>n. rmtree_error (all_ok_os removal_works) n = None)
   \<and> \<not> os_path_exists
        (fs (snd (process_video_endpoint (demo_globals accepts_updates) (all_ok_os removal_works)
                    demo_request demo_world)))
        demo_job_dir
   \<and> filter is_status_write
        (events_since demo_world
          (snd (process_video_endpoint (demo_globals accepts_updates) (all_ok_os removal_works)
                  demo_request demo_world)))
       = [StatusWrite (JStr ''doc1'')
            [(''processingStatus'', ''complete''),
             (''splatModelUrl'', ''https://storage.example/splat-models/u1/doc1.ply'')]]
   \<and> snd (fst (process_video_endpoint (demo_globals accepts_updates) (all_ok_os removal_works)
                  demo_request demo_world)) = 200"
proof -
  have jd: "demo_job_dir = os_path_join base_work_dir (uuid4 (all_ok_os removal_works))"
    unfolding all_ok_os_def by (rule demo_job_dir_eq)
  have mk: "os_makedirs (all_ok_os removal_works) demo_job_dir True (fs demo_world)
      = Inr (in_job_dir [])"
    unfolding all_ok_os_def by (rule demo_makedirs)
  have norm: "\<forall>n. rmtree_error (all_ok_os removal_works) n = None"
    by (simp add: all_ok_os_def demo_os_def removal_works_def)
  have writes: "filter is_status_write
        (events_since demo_world
          (snd (process_video_endpoint (demo_globals accepts_updates) (all_ok_os removal_works)
                  demo_request demo_world)))
       = [StatusWrite (JStr ''doc1'')
            [(''processingStatus'', ''complete''),
             (''splatModelUrl'', ''https://storage.example/splat-models/u1/doc1.ply'')]]
   \<and> snd (fst (process_video_endpoint (demo_globals accepts_updates) (all_ok_os removal_works)
                  demo_request demo_world)) = 200"
    by code_simp
  from one_status_write_and_workspace_removed
    [OF demo_common(1,2,3,4) jd mk surjective_pairing, folded demo_request_def] norm
  have "\<not> os_path_exists
        (fs (snd (process_video_endpoint (demo_globals accepts_updates) (all_ok_os removal_works)
                    demo_request demo_world)))
        demo_job_dir"
    by blast
  then show ?thesis using norm writes by simp
qed

text \<open>
  A request whose \<open>videoStoragePath\<close> is not a string is outside the amended statement:
  line 124 raises after the job directory has been made and before the inner
  \<^verbatim>\<open>try\<close>, so no status is written and the directory stays.
\<close>

lemma non_string_path_raises_after_makedirs:
  "process_video_endpoint (demo_globals accepts_updates) (all_ok_os removal_works)
      number_path_request demo_world
     = (([(''error'', JStr ''Failed to handle request''),
          (''details'',
           JStr ''Error handling request: expected str, bytes or os.PathLike object, not int'')],
         500),
        demo_world\<lparr>fs := in_job_dir [],
          trace := [Print ''[PRE-JOB ERROR] Error handling request: expected str, bytes or os.PathLike object, not int'']\<rparr>)"
  by (simp add: process_video_endpoint_def handle_request_def payload_incomplete_def
        basename_of_def number_path_request_def demo_globals_def all_ok_os_def demo_os_def
        os_makedirs_def base_work_dir_def os_path_join_def demo_world_def in_job_dir_def
        record_event_def Let_def)

text \<open>
  C2. The code at the failing input: every step succeeds up to the write of
  \<open>complete\<close>, and the removal that follows it fails. The removal stands inside the
  \<^verbatim>\<open>try\<close>, so the generic \<^verbatim>\<open>except\<close> clause writes \<open>failed\<close> for the same document:
  the document ends with the status \<open>failed\<close> next to the URL of the published model,
  and the response is 500.
\<close>

theorem complete_overwritten_by_failed:
  "filter is_status_write
     (events_since demo_world
        (snd (process_video_endpoint (demo_globals accepts_updates) (all_ok_os first_removal_busy)
                demo_request demo_world)))
     = [StatusWrite (JStr ''doc1'')
          [(''processingStatus'', ''complete''),
           (''splatModelUrl'', ''https://storage.example/splat-models/u1/doc1.ply'')],
        StatusWrite (JStr ''doc1'') [(''processingStatus'', ''failed'')]]
   \<and> map_option (\<lambda>flds. (flds ''processingStatus'', flds ''splatModelUrl''))
        (docs (snd (process_video_endpoint (demo_globals accepts_updates)
                      (all_ok_os first_removal_busy) demo_request demo_world)) (JStr ''doc1''))
     = Some (Some ''failed'', Some ''https://storage.example/splat-models/u1/doc1.ply'')
   \<and> fst (process_video_endpoint (demo_globals accepts_updates) (all_ok_os first_removal_busy)
           demo_request demo_world)
     = ([(''error'', JStr ''An internal server error occurred during processing''),
         (''details'',
          JStr ''An error occurred during processing: [Errno 16] Device or resource busy'')],
        500)"
  by code_simp

section \<open>The error of a failed command\<close>

text \<open>
  C3. The code at the failing input: the first command exits with status 1 after
  writing \<open>boom\<close> to its standard error stream. \<open>subprocess.run\<close> is called without
  capturing the stream, so the \<open>stderr\<close> of the exception is \<open>None\<close> (with capture it
  would hold \<open>boom\<close>); the line printed for it is \<open>Stderr: None\<close>, and the response
  carries the exit status only.
\<close>

theorem stage_error_has_no_stderr:
  "fst (subprocess_run (stage1_fails_os removal_works)
          (process_cmd (os_path_join demo_job_dir ''clip.webm'')
             (os_path_join demo_job_dir ''nerf_data''))
          False (demo_world\<lparr>fs := in_job_dir demo_video\<rparr>))
     = Inl (CalledProcessError 1
              (process_cmd (os_path_join demo_job_dir ''clip.webm'')
                 (os_path_join demo_job_dir ''nerf_data''))
              None None)
   \<and> fst (subprocess_run (stage1_fails_os removal_works)
          (process_cmd (os_path_join demo_job_dir ''clip.webm'')
             (os_path_join demo_job_dir ''nerf_data''))
          True (demo_world\<lparr>fs := in_job_dir demo_video\<rparr>))
     = Inl (CalledProcessError 1
              (process_cmd (os_path_join demo_job_dir ''clip.webm'')
                 (os_path_join demo_job_dir ''nerf_data''))
              None (Some ''boom''))
   \<and> trace (snd (process_video_endpoint (demo_globals accepts_updates)
                    (stage1_fails_os removal_works) demo_request demo_world))
     = [Download ''videos/u1/clip.webm'' [''tmp'', ''nerfstudio_jobs'', ''j1'', ''clip.webm''],
        Run [''ns-process-data'', ''video'', ''--data'', ''/tmp/nerfstudio_jobs/j1/clip.webm'',
             ''--output-dir'', ''/tmp/nerfstudio_jobs/j1/nerf_data'', ''--verbose''],
        Print ''[j1] Nerfstudio command failed (Code 1). Check RunPod logs.'',
        Print ''[j1] Stderr: None'',
        StatusWrite (JStr ''doc1'') [(''processingStatus'', ''failed'')],
        Print ''[j1] Cleaning up failed job directory: /tmp/nerfstudio_jobs/j1'',
        Rmtree [''tmp'', ''nerfstudio_jobs'', ''j1'']]
   \<and> fst (process_video_endpoint (demo_globals accepts_updates)
             (stage1_fails_os removal_works) demo_request demo_world)
     = ([(''error'', JStr ''Nerfstudio processing failed''),
         (''details'', JStr ''Nerfstudio command failed (Code 1). Check RunPod logs.'')], 500)"
  by code_simp

section \<open>Creating the workspace\<close>

text \<open>
  C4, as stated, fails. The directory named by the job identifier is already there,
  with a file in it: \<open>os.makedirs\<close> with \<open>exist_ok=True\<close> returns without an error and
  leaves the directory as it is, and the request runs to the response 200 in it.
\<close>

theorem existing_job_directory_not_rejected:
  "os_path_isdir (fs stale_world) demo_job_dir
   \<and> os_makedirs (all_ok_os removal_works) demo_job_dir True (fs stale_world)
       = Inr (in_job_dir [(''stale.bin'', File)])
   \<and> fst (process_video_endpoint (demo_globals accepts_updates) (all_ok_os removal_works)
            demo_request stale_world)
       = ([(''status'', JStr ''processing complete''),
           (''splatUrl'', JStr ''https://storage.example/splat-models/u1/doc1.ply'')], 200)"
  by code_simp

text \<open>
  C4, amended. When the directory named by the job identifier already exists under the
  root, workspace creation does not fail: the file system is left as it is, and a
  request whose \<open>videoStoragePath\<close> is a string goes on to the processing steps in the
  existing directory.
\<close>

theorem existing_job_directory_is_reused:
  assumes req: "map_of data ''videoStoragePath'' = Some v"
               "map_of data ''firestoreDocId'' = Some doc_id"
    and jd: "job_dir = os_path_join base_work_dir (uuid4 os)"
    and ex: "os_path_isdir (fs w) job_dir"
  shows "os_makedirs os job_dir True (fs w) = Inr (fs w)
     \<and> (\<forall>s. v = JStr s \<longrightarrow>
          handle_request g os (Inr (JObj data)) w
          = (case processing_steps g os (uuid4 os) s doc_id
                    (case map_of data ''userId'' of None \<Rightarrow> JStr ''unknown_user'' | Some u \<Rightarrow> u)
                    job_dir w of
               (Inr resp, w') \<Rightarrow> (Inr resp, w')
             | (Inl e, w') \<Rightarrow> handle_processing_error g os (uuid4 os) doc_id job_dir e w'))"
proof -
  have mk: "os_makedirs os (os_path_join base_work_dir (uuid4 os)) True (fs w) = Inr (fs w)"
    using ex unfolding jd
    by (auto simp: os_makedirs_def os_path_isdir_def split: option.splits node.splits)
  have "handle_request g os (Inr (JObj data)) w
          = (case processing_steps g os (uuid4 os) s doc_id
                    (case map_of data ''userId'' of None \<Rightarrow> JStr ''unknown_user'' | Some u \<Rightarrow> u)
                    job_dir w of
               (Inr resp, w') \<Rightarrow> (Inr resp, w')
             | (Inl e, w') \<Rightarrow> handle_processing_error g os (uuid4 os) doc_id job_dir e w')"
    if "v = JStr s" for s
    using handle_request_valid [OF req(1) [unfolded that] req(2) mk, of g] unfolding jd by simp
  then show ?thesis using mk unfolding jd by blast
qed

theorem existing_job_directory_is_reused_witness:
  "os_path_isdir (fs stale_world) demo_job_dir
   \<and> os_makedirs (all_ok_os removal_works) demo_job_dir True (fs stale_world) = Inr (fs stale_world)"
proof -
  have jd: "demo_job_dir = os_path_join base_work_dir (uuid4 (all_ok_os removal_works))"
    unfolding all_ok_os_def by (rule demo_job_dir_eq)
  have ex: "os_path_isdir (fs stale_world) demo_job_dir"
    by (simp add: stale_world_def demo_world_def in_job_dir_def demo_job_dir_def
          os_path_isdir_def)
  from existing_job_directory_is_reused [OF demo_common(3,4) jd ex] ex
  show ?thesis by simp
qed

section \<open>A removal that fails\<close>

text \<open>
  C5. The code at the failing input: the first command fails, and the removal of the
  job directory fails after it. No removal is guarded: the exception of the removal
  leaves the \<^verbatim>\<open>except\<close> clause, lands in the handler for request issues and is printed
  as a pre-job error; the reply is \<open>Failed to handle request\<close> with the message of the
  removal, where a removal that works gives \<open>Nerfstudio processing failed\<close>, and the job
  directory stays. After a run that succeeded up to the write of \<open>complete\<close>, a failing
  removal likewise turns the reply 200 into a 500.
\<close>

theorem removal_failure_masks_pipeline_error:
  "fst (process_video_endpoint (demo_globals accepts_updates) (stage1_fails_os removal_busy)
          demo_request demo_world)
     = ([(''error'', JStr ''Failed to handle request''),
         (''details'', JStr ''Error handling request: [Errno 16] Device or resource busy'')], 500)
   \<and> last (trace (snd (process_video_endpoint (demo_globals accepts_updates)
                         (stage1_fails_os removal_busy) demo_request demo_world)))
     = Print ''[PRE-JOB ERROR] Error handling request: [Errno 16] Device or resource busy''
   \<and> os_path_exists
        (fs (snd (process_video_endpoint (demo_globals accepts_updates)
                    (stage1_fails_os removal_busy) demo_request demo_world)))
        demo_job_dir
   \<and> fst (process_video_endpoint (demo_globals accepts_updates) (stage1_fails_os removal_works)
          demo_request demo_world)
     = ([(''error'', JStr ''Nerfstudio processing failed''),
         (''details'', JStr ''Nerfstudio command failed (Code 1). Check RunPod logs.'')], 500)
   \<and> fst (process_video_endpoint (demo_globals accepts_updates) (all_ok_os removal_busy)
          demo_request demo_world)
     = ([(''error'', JStr ''Failed to handle request''),
         (''details'', JStr ''Error handling request: [Errno 16] Device or resource busy'')], 500)
   \<and> fst (process_video_endpoint (demo_globals accepts_updates) (all_ok_os removal_works)
          demo_request demo_world)
     = ([(''status'', JStr ''processing complete''),
         (''splatUrl'', JStr ''https://storage.example/splat-models/u1/doc1.ply'')], 200)"
  by code_simp

end
